theory Spec2Isabelle
  imports Main
begin

section \<open>Strings\<close>

text \<open>
  The application (\<^verbatim>\<open>src/App.tsx\<close>) works on JavaScript strings. A JavaScript string is a
  sequence of UTF-16 code units; the model is \<^typ>\<open>string\<close>, a list of \<^typ>\<open>char\<close>, each
  \<^typ>\<open>char\<close> standing for the code unit with the same number. The model therefore covers
  the strings whose code units lie in U+0000 .. U+00FF. On these, \<^verbatim>\<open>String.prototype.trim\<close>
  and \<^verbatim>\<open>String.prototype.toLowerCase\<close> are the functions below.
\<close>

definition charCode :: "char \<Rightarrow> nat" where
  "charCode c = of_char c"

text \<open>
  \<^verbatim>\<open>trim\<close> removes WhiteSpace and LineTerminator code units from both ends. Below U+0100
  these are TAB, LF, VT, FF, CR, SP and NBSP.
\<close>

definition isWhiteSpace :: "char \<Rightarrow> bool" where
  "isWhiteSpace c = (charCode c \<in> {9, 10, 11, 12, 13, 32, 160})"

definition trim :: "string \<Rightarrow> string" where
  "trim s = rev (dropWhile isWhiteSpace (rev (dropWhile isWhiteSpace s)))"

text \<open>
  \<^verbatim>\<open>toLowerCase\<close>: below U+0100 the code units with a different lower-case form are
  A .. Z and U+00C0 .. U+00DE without the multiplication sign U+00D7; each maps to the code
  unit 32 places higher.
\<close>

definition toLowerCase_char :: "char \<Rightarrow> char" where
  "toLowerCase_char c =
     (let n = charCode c in
      if (65 \<le> n \<and> n \<le> 90) \<or> (192 \<le> n \<and> n \<le> 222 \<and> n \<noteq> 215)
      then char_of (n + 32) else c)"

definition toLowerCase :: "string \<Rightarrow> string" where
  "toLowerCase s = map toLowerCase_char s"

text \<open>\<^verbatim>\<open>Number.prototype.toString\<close> on a non-negative integer: its decimal digits.\<close>

definition digitChar :: "nat \<Rightarrow> char" where
  "digitChar d = char_of (48 + d)"

fun toString_nat :: "nat \<Rightarrow> string" where
  "toString_nat n =
     (if n < 10 then [digitChar n] else toString_nat (n div 10) @ [digitChar (n mod 10)])"

declare toString_nat.simps [simp del]

text \<open>\<^verbatim>\<open>s.padStart(n, c)\<close> with a pad string of one code unit.\<close>

definition padStart :: "nat \<Rightarrow> char \<Rightarrow> string \<Rightarrow> string" where
  "padStart n c s = replicate (n - length s) c @ s"

text \<open>\<^verbatim>\<open>Number(s)\<close> on a string of decimal digits, as the regular expression's groups are.\<close>

definition digitVal :: "char \<Rightarrow> nat" where
  "digitVal c = charCode c - 48"

definition Number_digits :: "string \<Rightarrow> nat" where
  "Number_digits s = foldl (\<lambda>acc c. 10 * acc + digitVal c) 0 s"

section \<open>Time parser and formatter\<close>

text \<open>
  \<^verbatim>\<open>function formatTime(hour, minute) {
    return `${hour.toString().padStart(2, '0')}:${minute.toString().padStart(2, '0')}`;
  }\<close>
\<close>

definition formatTime :: "nat \<Rightarrow> nat \<Rightarrow> string" where
  "formatTime hour minute =
     padStart 2 (CHR ''0'') (toString_nat hour) @ '':'' @ padStart 2 (CHR ''0'') (toString_nat minute)"

text \<open>
  The regular expression \<^verbatim>\<open>/^([01]?\d|2[0-3]):([0-5]\d)$/\<close>. A character class
  \<^verbatim>\<open>[a-b]\<close> is \<open>inClass a b\<close>, and \<^verbatim>\<open>\d\<close> is \<^verbatim>\<open>[0-9]\<close>.
\<close>

definition inClass :: "char \<Rightarrow> char \<Rightarrow> char \<Rightarrow> bool" where
  "inClass lo hi c = (charCode lo \<le> charCode c \<and> charCode c \<le> charCode hi)"

definition isDigit :: "char \<Rightarrow> bool" where
  "isDigit c = inClass (CHR ''0'') (CHR ''9'') c"

text \<open>
  The ways the first group can match a prefix of the input, in the order in which the
  backtracking matcher tries them: \<^verbatim>\<open>[01]\d\<close> (the optional class taken, as \<^verbatim>\<open>?\<close> is
  greedy), then \<^verbatim>\<open>\d\<close> alone, then the second alternative \<^verbatim>\<open>2[0-3]\<close>. Each gives the
  captured text and the rest of the input.
\<close>

definition hourAlternatives :: "string \<Rightarrow> (string \<times> string) list" where
  "hourAlternatives s =
     (case s of
        a # b # r \<Rightarrow> if inClass (CHR ''0'') (CHR ''1'') a \<and> isDigit b then [([a, b], r)] else []
      | _ \<Rightarrow> [])
     @ (case s of
        b # r \<Rightarrow> if isDigit b then [([b], r)] else []
      | _ \<Rightarrow> [])
     @ (case s of
        a # b # r \<Rightarrow> if a = CHR ''2'' \<and> inClass (CHR ''0'') (CHR ''3'') b then [([a, b], r)] else []
      | _ \<Rightarrow> [])"

text \<open>The rest of the pattern, \<^verbatim>\<open>:([0-5]\d)$\<close>: the captured minute text, if it matches.\<close>

definition minuteTail :: "string \<Rightarrow> string option" where
  "minuteTail s =
     (case s of
        [c, m1, m2] \<Rightarrow>
          if c = CHR '':'' \<and> inClass (CHR ''0'') (CHR ''5'') m1 \<and> isDigit m2
          then Some [m1, m2] else None
      | _ \<Rightarrow> None)"

text \<open>\<^verbatim>\<open>regex.exec(s)\<close>: the two groups of the first alternative that leads to a match.\<close>

definition timeRegex_exec :: "string \<Rightarrow> (string \<times> string) option" where
  "timeRegex_exec s =
     (case List.map_filter (\<lambda>(h, r). map_option (Pair h) (minuteTail r)) (hourAlternatives s) of
        [] \<Rightarrow> None
      | m # _ \<Rightarrow> Some m)"

text \<open>
  \<^verbatim>\<open>function parseTime(raw) {
    const match = /^([01]?\d|2[0-3]):([0-5]\d)$/.exec(raw.trim());
    if (!match) { return null; }
    return { hour: Number(match[1]), minute: Number(match[2]) };
  }\<close>
  The result object is the pair (hour, minute); \<^verbatim>\<open>null\<close> is \<open>None\<close>.
\<close>

definition parseTime :: "string \<Rightarrow> (nat \<times> nat) option" where
  "parseTime raw =
     (case timeRegex_exec (trim raw) of
        None \<Rightarrow> None
      | Some (g1, g2) \<Rightarrow> Some (Number_digits g1, Number_digits g2))"

text \<open>
  The format the specification names, in its words: 24-hour \<^verbatim>\<open>H:MM\<close> or \<^verbatim>\<open>HH:MM\<close>, hour
  0-23, minute 00-59, the leading zero of the hour optional.
\<close>

definition spec_time_format :: "string \<Rightarrow> bool" where
  "spec_time_format s =
     (case s of
        [h, c, m1, m2] \<Rightarrow>
          isDigit h \<and> c = CHR '':'' \<and> isDigit m1 \<and> isDigit m2 \<and> Number_digits [m1, m2] \<le> 59
      | [h1, h2, c, m1, m2] \<Rightarrow>
          isDigit h1 \<and> isDigit h2 \<and> Number_digits [h1, h2] \<le> 23 \<and> c = CHR '':''
          \<and> isDigit m1 \<and> isDigit m2 \<and> Number_digits [m1, m2] \<le> 59
      | _ \<Rightarrow> False)"

section \<open>Data model\<close>

text \<open>\<^verbatim>\<open>type Screen = 'tools' | 'foodWastePreventer'\<close>\<close>

datatype Screen = tools | foodWastePreventer

text \<open>
  \<^verbatim>\<open>type MealEntry = { id, name, hour, minute, notificationId, createdAt }\<close>; the field
  \<^verbatim>\<open>id\<close> is \<open>entry_id\<close> here.
\<close>

record MealEntry =
  entry_id :: string
  name :: string
  hour :: nat
  minute :: nat
  notificationId :: string
  createdAt :: nat

text \<open>\<^verbatim>\<open>type ActiveAlarm = { mealId: string; mealName: string }\<close>\<close>

record ActiveAlarm =
  mealId :: string
  mealName :: string

text \<open>
  The data attached to a notification, \<^verbatim>\<open>{ mealId?: string; mealName?: string }\<close>: a field
  that is absent is \<open>None\<close>.
\<close>

record NotificationData =
  data_mealId :: "string option"
  data_mealName :: "string option"

text \<open>The argument of \<^verbatim>\<open>Notifications.scheduleNotificationAsync\<close> in \<^verbatim>\<open>addMeal\<close>.\<close>

record NotificationRequest =
  title :: string
  body :: string
  sound :: string
  data :: NotificationData
  trigger_type :: string
  trigger_hour :: nat
  trigger_minute :: nat
  channelId :: string

datatype PermissionStatus = granted | denied | undetermined

text \<open>
  The component \<^verbatim>\<open>App\<close> and the platform services it calls, as one record.

  \<^item> The six \<^verbatim>\<open>useState\<close> variables; the variable \<^verbatim>\<open>mealName\<close> is \<open>mealNameInput\<close>,
    as \<open>mealName\<close> is the field of \<^typ>\<open>ActiveAlarm\<close>.
  \<^item> The \<^verbatim>\<open>useRef\<close> cell \<open>vibrationIntervalRef\<close>.
  \<^item> What React keeps about the component: whether it is mounted, whether
    \<^verbatim>\<open>setupNotifications\<close> is still waiting for the platform, which dependencies
    (\<^verbatim>\<open>[meals]\<close>, \<^verbatim>\<open>[activeAlarm]\<close>) hold a new value since the effects last ran, and whether
    the last run of the vibration effect returned a cleanup function.
  \<^item> The platform: the value stored under \<^verbatim>\<open>STORAGE_KEY\<close> and the list of
    \<^verbatim>\<open>setItem\<close> calls made so far, the scheduled notifications with their identifiers, the
    notification channels, whether the two listeners are subscribed, the running
    \<^verbatim>\<open>setInterval\<close> timers and the next timer handle, whether a vibration was requested and
    not cancelled, and the \<^verbatim>\<open>Alert.alert\<close> dialogs shown.

  The stored value is a meal list rather than its JSON text: \<^verbatim>\<open>JSON.parse\<close> after
  \<^verbatim>\<open>JSON.stringify\<close> gives the list back, and only this component writes the key.
\<close>

record App =
  screen :: Screen
  meals :: "MealEntry list"
  mealNameInput :: string
  dailyTime :: string
  activeAlarm :: "ActiveAlarm option"
  alarmSentence :: string
  vibrationIntervalRef :: "nat option"
  mounted :: bool
  setupPending :: bool
  mealsChanged :: bool
  activeAlarmChanged :: bool
  vibrationCleanup :: bool
  storage :: "MealEntry list option"
  storageWrites :: "MealEntry list list"
  scheduled :: "(string \<times> NotificationRequest) list"
  channels :: "string list"
  subscribed :: bool
  intervals :: "nat list"
  nextInterval :: nat
  vibrating :: bool
  alerts :: "(string \<times> string) list"

section \<open>State setters and platform calls\<close>

text \<open>
  React compares a new state value with the old one by \<^verbatim>\<open>Object.is\<close>. Every
  \<^verbatim>\<open>setActiveAlarm({...})\<close> passes a new object, so the dependency \<^verbatim>\<open>[activeAlarm]\<close>
  changes; \<^verbatim>\<open>setActiveAlarm(null)\<close> changes it unless the value is \<^verbatim>\<open>null\<close> already.
  Every \<^verbatim>\<open>setMeals\<close> of the source passes a new array.
\<close>

definition setActiveAlarm :: "ActiveAlarm option \<Rightarrow> App \<Rightarrow> App" where
  "setActiveAlarm v s =
     s\<lparr>activeAlarm := v,
       activeAlarmChanged := (activeAlarmChanged s \<or> \<not> (v = None \<and> activeAlarm s = None))\<rparr>"

definition setMeals :: "MealEntry list \<Rightarrow> App \<Rightarrow> App" where
  "setMeals v s = s\<lparr>meals := v, mealsChanged := True\<rparr>"

definition setScreen :: "Screen \<Rightarrow> App \<Rightarrow> App" where
  "setScreen v s = s\<lparr>screen := v\<rparr>"

definition setMealName :: "string \<Rightarrow> App \<Rightarrow> App" where
  "setMealName v s = s\<lparr>mealNameInput := v\<rparr>"

definition setDailyTime :: "string \<Rightarrow> App \<Rightarrow> App" where
  "setDailyTime v s = s\<lparr>dailyTime := v\<rparr>"

definition setAlarmSentence :: "string \<Rightarrow> App \<Rightarrow> App" where
  "setAlarmSentence v s = s\<lparr>alarmSentence := v\<rparr>"

definition Alert_alert :: "string \<Rightarrow> string \<Rightarrow> App \<Rightarrow> App" where
  "Alert_alert t m s = s\<lparr>alerts := alerts s @ [(t, m)]\<rparr>"

definition Vibration_vibrate :: "App \<Rightarrow> App" where
  "Vibration_vibrate s = s\<lparr>vibrating := True\<rparr>"

definition Vibration_cancel :: "App \<Rightarrow> App" where
  "Vibration_cancel s = s\<lparr>vibrating := False\<rparr>"

text \<open>
  \<^verbatim>\<open>vibrationIntervalRef.current = setInterval(...)\<close>: the platform starts a timer and
  returns a handle no running timer has.
\<close>

definition startVibrationInterval :: "App \<Rightarrow> App" where
  "startVibrationInterval s =
     s\<lparr>intervals := intervals s @ [nextInterval s],
       vibrationIntervalRef := Some (nextInterval s),
       nextInterval := Suc (nextInterval s)\<rparr>"

text \<open>
  \<^verbatim>\<open>if (vibrationIntervalRef.current) {
    clearInterval(vibrationIntervalRef.current);
    vibrationIntervalRef.current = null;
  }\<close>
\<close>

definition clearVibrationInterval :: "App \<Rightarrow> App" where
  "clearVibrationInterval s =
     (case vibrationIntervalRef s of
        None \<Rightarrow> s
      | Some h \<Rightarrow> s\<lparr>intervals := removeAll h (intervals s), vibrationIntervalRef := None\<rparr>)"

text \<open>
  \<^verbatim>\<open>Notifications.scheduleNotificationAsync(request)\<close>: the platform registers the trigger
  and returns its identifier, which is the argument \<open>h\<close>.
\<close>

definition scheduleNotification :: "string \<Rightarrow> NotificationRequest \<Rightarrow> App \<Rightarrow> App" where
  "scheduleNotification h r s = s\<lparr>scheduled := scheduled s @ [(h, r)]\<rparr>"

definition cancelScheduledNotification :: "string \<Rightarrow> App \<Rightarrow> App" where
  "cancelScheduledNotification h s = s\<lparr>scheduled := filter (\<lambda>(k, r). k \<noteq> h) (scheduled s)\<rparr>"

text \<open>The truth value of an optional string: \<^verbatim>\<open>undefined\<close> and the empty string are false.\<close>

definition truthy :: "string option \<Rightarrow> bool" where
  "truthy v = (case v of None \<Rightarrow> False | Some t \<Rightarrow> t \<noteq> [])"

section \<open>Effects\<close>

text \<open>
  \<^verbatim>\<open>useEffect(() => {
    const persist = async () => {
      await AsyncStorage.setItem(STORAGE_KEY, JSON.stringify(meals));
    };
    void persist();
  }, [meals]);\<close>
\<close>

definition persistEffect :: "App \<Rightarrow> App" where
  "persistEffect s = s\<lparr>storage := Some (meals s), storageWrites := storageWrites s @ [meals s]\<rparr>"

text \<open>
  The effect on \<^verbatim>\<open>[activeAlarm]\<close>:
  \<^verbatim>\<open>if (!activeAlarm) {
    if (vibrationIntervalRef.current) { clearInterval(...); vibrationIntervalRef.current = null; }
    Vibration.cancel();
    setAlarmSentence('');
    return;
  }
  Vibration.vibrate(1000);
  vibrationIntervalRef.current = setInterval(() => { Vibration.vibrate(1000); }, 1500);
  return () => {
    if (vibrationIntervalRef.current) { clearInterval(...); vibrationIntervalRef.current = null; }
    Vibration.cancel();
  };\<close>
\<close>

definition vibrationEffect :: "App \<Rightarrow> App" where
  "vibrationEffect s =
     (case activeAlarm s of
        None \<Rightarrow>
          (setAlarmSentence [] (Vibration_cancel (clearVibrationInterval s)))
            \<lparr>vibrationCleanup := False\<rparr>
      | Some a \<Rightarrow>
          (startVibrationInterval (Vibration_vibrate s))\<lparr>vibrationCleanup := True\<rparr>)"

definition vibrationEffect_cleanup :: "App \<Rightarrow> App" where
  "vibrationEffect_cleanup s = Vibration_cancel (clearVibrationInterval s)"

text \<open>
  The effect that subscribes the two notification listeners, and its cleanup, which
  removes both.
\<close>

definition listenerEffect :: "App \<Rightarrow> App" where
  "listenerEffect s = s\<lparr>subscribed := True\<rparr>"

definition listenerEffect_cleanup :: "App \<Rightarrow> App" where
  "listenerEffect_cleanup s = s\<lparr>subscribed := False\<rparr>"

text \<open>
  After a render React runs the effects whose dependencies changed: first the cleanup
  functions of their previous runs, then the effects in the order of the source.
\<close>

definition runEffects :: "App \<Rightarrow> App" where
  "runEffects s =
     (let s1 = (if activeAlarmChanged s \<and> vibrationCleanup s then vibrationEffect_cleanup s else s);
          s2 = (if mealsChanged s then persistEffect s1 else s1);
          s3 = (if activeAlarmChanged s then vibrationEffect s2 else s2)
      in s3\<lparr>mealsChanged := False, activeAlarmChanged := False\<rparr>)"

text \<open>
  The component before its first render, on a platform that holds \<open>stored\<close> under the
  storage key and the scheduled notifications \<open>sched\<close>: the initial values of the
  \<^verbatim>\<open>useState\<close> and \<^verbatim>\<open>useRef\<close> calls, no timer running.
\<close>

definition initialApp :: "MealEntry list option \<Rightarrow> (string \<times> NotificationRequest) list \<Rightarrow> App" where
  "initialApp stored sched =
     \<lparr>screen = tools, meals = [], mealNameInput = [], dailyTime = ''18:00'',
      activeAlarm = None, alarmSentence = [], vibrationIntervalRef = None,
      mounted = False, setupPending = False, mealsChanged = False, activeAlarmChanged = False,
      vibrationCleanup = False,
      storage = stored, storageWrites = [], scheduled = sched, channels = [],
      subscribed = False, intervals = [], nextInterval = 1, vibrating = False, alerts = []\<rparr>"

text \<open>
  Mounting runs every effect once, in the order of the source: \<^verbatim>\<open>setupNotifications\<close> is
  called and waits for the platform at its first \<^verbatim>\<open>await\<close>, the list is persisted, the
  listeners are subscribed, the vibration effect runs.
\<close>

definition mount :: "App \<Rightarrow> App" where
  "mount s =
     vibrationEffect (listenerEffect (persistEffect (s\<lparr>mounted := True, setupPending := True\<rparr>)))"

text \<open>Unmounting runs the cleanup functions of the effects that returned one.\<close>

definition unmount :: "App \<Rightarrow> App" where
  "unmount s =
     (let s1 = listenerEffect_cleanup s;
          s2 = (if vibrationCleanup s1 then vibrationEffect_cleanup s1 else s1)
      in s2\<lparr>mounted := False, vibrationCleanup := False\<rparr>)"

section \<open>Startup and notification events\<close>

text \<open>
  The last lines of \<^verbatim>\<open>setupNotifications\<close>, the cold-start check:
  \<^verbatim>\<open>const data = lastResponse?.notification.request.content.data;
  if (data?.mealId && data.mealName) {
    setActiveAlarm({ mealId: data.mealId, mealName: data.mealName });
  }\<close>
\<close>

definition lastResponseCheck :: "NotificationData option \<Rightarrow> App \<Rightarrow> App" where
  "lastResponseCheck d s =
     (case d of
        None \<Rightarrow> s
      | Some dat \<Rightarrow>
          if truthy (data_mealId dat) \<and> truthy (data_mealName dat)
          then setActiveAlarm
                 (Some \<lparr>mealId = the (data_mealId dat), mealName = the (data_mealName dat)\<rparr>) s
          else s)"

text \<open>
  \<^verbatim>\<open>setupNotifications\<close>, with what the platform answers as arguments: the permission
  status, the status after the request (read only when the first is not \<open>granted\<close>) and
  the data of the last notification response.
\<close>

definition setupNotifications ::
  "PermissionStatus \<Rightarrow> PermissionStatus \<Rightarrow> NotificationData option \<Rightarrow> App \<Rightarrow> App" where
  "setupNotifications status requested lastResponse s =
     (let s1 = (if status \<noteq> granted \<and> requested \<noteq> granted
                then Alert_alert ''Notifications are off''
                       ''Enable notifications so daily meal reminders can ring like alarms.'' s
                else s);
          s2 = s1\<lparr>channels := channels s1 @ [''food-reminders'']\<rparr>;
          s3 = (case storage s2 of None \<Rightarrow> s2 | Some raw \<Rightarrow> setMeals raw s2)
      in (lastResponseCheck lastResponse s3)\<lparr>setupPending := False\<rparr>)"

text \<open>
  The listener of \<^verbatim>\<open>addNotificationReceivedListener\<close>:
  \<^verbatim>\<open>if (!data.mealId || !data.mealName) { return; }
  setActiveAlarm({ mealId: data.mealId, mealName: data.mealName });
  setScreen('foodWastePreventer');\<close>
\<close>

definition notificationReceivedListener :: "NotificationData \<Rightarrow> App \<Rightarrow> App" where
  "notificationReceivedListener dat s =
     (if \<not> truthy (data_mealId dat) \<or> \<not> truthy (data_mealName dat) then s
      else setScreen foodWastePreventer
             (setActiveAlarm
                (Some \<lparr>mealId = the (data_mealId dat), mealName = the (data_mealName dat)\<rparr>) s))"

text \<open>The listener of \<^verbatim>\<open>addNotificationResponseReceivedListener\<close>, with the same body.\<close>

definition notificationResponseListener :: "NotificationData \<Rightarrow> App \<Rightarrow> App" where
  "notificationResponseListener dat s =
     (if \<not> truthy (data_mealId dat) \<or> \<not> truthy (data_mealName dat) then s
      else setScreen foodWastePreventer
             (setActiveAlarm
                (Some \<lparr>mealId = the (data_mealId dat), mealName = the (data_mealName dat)\<rparr>) s))"

section \<open>Meal store\<close>

text \<open>
  \<^verbatim>\<open>addMeal\<close>. The arguments are what the environment supplies during the call:
  \<^verbatim>\<open>Date.now()\<close> when the id is made, the text of
  \<^verbatim>\<open>Math.random().toString(36).slice(2, 8)\<close>, the identifier the scheduler returns, and
  \<^verbatim>\<open>Date.now()\<close> when the entry is made.
\<close>

definition addMeal :: "nat \<Rightarrow> string \<Rightarrow> string \<Rightarrow> nat \<Rightarrow> App \<Rightarrow> App" where
  "addMeal now rand handle now2 s =
     (let trimmedName = trim (mealNameInput s) in
      if trimmedName = [] then
        Alert_alert ''Meal required'' ''Enter a meal name like Tuna casserole.'' s
      else
        (case parseTime (dailyTime s) of
           None \<Rightarrow> Alert_alert ''Time format'' ''Use 24h HH:MM format, for example 18:30.'' s
         | Some (h, m) \<Rightarrow>
             (let ident = toString_nat now @ ''-'' @ rand;
                  s1 = scheduleNotification handle
                         \<lparr>title = ''Food Waste Preventer'',
                          body = ''Use your '' @ trimmedName @ '' today.'',
                          sound = ''default'',
                          data = \<lparr>data_mealId = Some ident, data_mealName = Some trimmedName\<rparr>,
                          trigger_type = ''daily'',
                          trigger_hour = h,
                          trigger_minute = m,
                          channelId = ''food-reminders''\<rparr> s;
                  nextEntry = \<lparr>entry_id = ident, name = trimmedName, hour = h, minute = m,
                               notificationId = handle, createdAt = now2\<rparr>
              in setMealName [] (setMeals (nextEntry # meals s1) s1))))"

text \<open>
  \<^verbatim>\<open>const target = meals.find((meal) => meal.id === mealId);
  if (!target) { return; }
  await Notifications.cancelScheduledNotificationAsync(target.notificationId);
  setMeals((prev) => prev.filter((meal) => meal.id !== mealId));
  if (activeAlarm?.mealId === mealId) { setActiveAlarm(null); }\<close>
\<close>

definition cancelMealAlarm :: "string \<Rightarrow> App \<Rightarrow> App" where
  "cancelMealAlarm mid s =
     (case List.find (\<lambda>meal. entry_id meal = mid) (meals s) of
        None \<Rightarrow> s
      | Some target \<Rightarrow>
          (let s1 = cancelScheduledNotification (notificationId target) s;
               s2 = setMeals (filter (\<lambda>meal. entry_id meal \<noteq> mid) (meals s1)) s1
           in if map_option mealId (activeAlarm s) = Some mid then setActiveAlarm None s2 else s2))"

section \<open>Alarm session\<close>

text \<open>
  \<^verbatim>\<open>const requiredSentence = useMemo(() => {
    if (!activeAlarm) { return ''; }
    return `my name is sarah and i will use the ${activeAlarm.mealName.toLowerCase()} today`;
  }, [activeAlarm]);\<close>
\<close>

definition requiredSentence :: "ActiveAlarm option \<Rightarrow> string" where
  "requiredSentence alarm =
     (case alarm of
        None \<Rightarrow> []
      | Some a \<Rightarrow> ''my name is sarah and i will use the '' @ toLowerCase (mealName a) @ '' today'')"

text \<open>
  \<^verbatim>\<open>const canAcknowledge = useMemo(() => {
    return alarmSentence.trim().toLowerCase() === requiredSentence;
  }, [alarmSentence, requiredSentence]);\<close>
\<close>

definition canAcknowledge :: "string \<Rightarrow> string \<Rightarrow> bool" where
  "canAcknowledge typed required = (toLowerCase (trim typed) = required)"

section \<open>Events\<close>

text \<open>
  What can happen to the mounted component: the platform finishes the calls of
  \<^verbatim>\<open>setupNotifications\<close>, a notification is delivered or tapped, a vibration timer fires,
  the user presses a control or edits a text field, the component is unmounted.
\<close>

datatype Event =
    SetupDone PermissionStatus PermissionStatus "NotificationData option"
  | NotificationReceived NotificationData
  | NotificationResponse NotificationData
  | IntervalTick nat
  | PressTool
  | PressBack
  | ChangeMealName string
  | ChangeDailyTime string
  | PressAdd nat string string nat
  | PressCancelItem string
  | ChangeAlarmSentence string
  | PressDismiss
  | PressCancelThisAlarm
  | Unmount

text \<open>
  The handler each event runs. \<^verbatim>\<open>Cancel This Alarm\<close> is
  \<^verbatim>\<open>if (activeAlarm) { void cancelMealAlarm(activeAlarm.mealId); }\<close>.
\<close>

fun handler :: "Event \<Rightarrow> App \<Rightarrow> App" where
  "handler (SetupDone status requested lastResponse) s =
     setupNotifications status requested lastResponse s"
| "handler (NotificationReceived dat) s = notificationReceivedListener dat s"
| "handler (NotificationResponse dat) s = notificationResponseListener dat s"
| "handler (IntervalTick h) s = Vibration_vibrate s"
| "handler PressTool s = setScreen foodWastePreventer s"
| "handler PressBack s = setScreen tools s"
| "handler (ChangeMealName t) s = setMealName t s"
| "handler (ChangeDailyTime t) s = setDailyTime t s"
| "handler (PressAdd now rand handle now2) s = addMeal now rand handle now2 s"
| "handler (PressCancelItem mid) s = cancelMealAlarm mid s"
| "handler (ChangeAlarmSentence t) s = setAlarmSentence t s"
| "handler PressDismiss s = setActiveAlarm None s"
| "handler PressCancelThisAlarm s =
     (case activeAlarm s of None \<Rightarrow> s | Some a \<Rightarrow> cancelMealAlarm (mealId a) s)"
| "handler Unmount s = unmount s"

text \<open>
  When an event can happen, as the rendered tree has it. The alarm modal is visible iff
  \<^verbatim>\<open>Boolean(activeAlarm)\<close>; its text field is inside it, and its two buttons are rendered
  iff \<^verbatim>\<open>canAcknowledge\<close>. The tool screen's controls are rendered iff the screen is
  \<^verbatim>\<open>foodWastePreventer\<close>, one cancel button per listed meal. A listener runs while it is
  subscribed, a timer while it is running.
\<close>

fun enabled :: "Event \<Rightarrow> App \<Rightarrow> bool" where
  "enabled (SetupDone status requested lastResponse) s = (mounted s \<and> setupPending s)"
| "enabled (NotificationReceived dat) s = (mounted s \<and> subscribed s)"
| "enabled (NotificationResponse dat) s = (mounted s \<and> subscribed s)"
| "enabled (IntervalTick h) s = (mounted s \<and> h \<in> set (intervals s))"
| "enabled PressTool s = (mounted s \<and> screen s = tools)"
| "enabled PressBack s = (mounted s \<and> screen s = foodWastePreventer)"
| "enabled (ChangeMealName t) s = (mounted s \<and> screen s = foodWastePreventer)"
| "enabled (ChangeDailyTime t) s = (mounted s \<and> screen s = foodWastePreventer)"
| "enabled (PressAdd now rand handle now2) s = (mounted s \<and> screen s = foodWastePreventer)"
| "enabled (PressCancelItem mid) s =
     (mounted s \<and> screen s = foodWastePreventer \<and> mid \<in> set (map entry_id (meals s)))"
| "enabled (ChangeAlarmSentence t) s = (mounted s \<and> activeAlarm s \<noteq> None)"
| "enabled PressDismiss s =
     (mounted s \<and> activeAlarm s \<noteq> None
      \<and> canAcknowledge (alarmSentence s) (requiredSentence (activeAlarm s)))"
| "enabled PressCancelThisAlarm s =
     (mounted s \<and> activeAlarm s \<noteq> None
      \<and> canAcknowledge (alarmSentence s) (requiredSentence (activeAlarm s)))"
| "enabled Unmount s = mounted s"

text \<open>One step: the handler, then the effects of the render it causes.\<close>

definition step :: "Event \<Rightarrow> App \<Rightarrow> App" where
  "step e s = (case e of Unmount \<Rightarrow> handler e s | _ \<Rightarrow> runEffects (handler e s))"

text \<open>The states the component can be in, from any platform state at process start.\<close>

inductive reachable :: "App \<Rightarrow> bool" where
  start: "reachable (mount (initialApp stored sched))"
| next_step: "reachable s \<Longrightarrow> enabled e s \<Longrightarrow> reachable (step e s)"

text \<open>Running a list of events from a state, for concrete traces.\<close>

fun run :: "Event list \<Rightarrow> App \<Rightarrow> App" where
  "run [] s = s"
| "run (e # es) s = run es (step e s)"

text \<open>Whether each event of a list can happen when its turn comes.\<close>

fun all_enabled :: "Event list \<Rightarrow> App \<Rightarrow> bool" where
  "all_enabled [] s = True"
| "all_enabled (e # es) s = (enabled e s \<and> all_enabled es (step e s))"

section \<open>Example states\<close>

text \<open>The component just mounted, on a platform with nothing stored and nothing scheduled.\<close>

definition started :: App where
  "started = mount (initialApp None [])"

text \<open>The tool screen with a meal name and a time typed in.\<close>

definition tuna_form :: App where
  "tuna_form = run [PressTool, ChangeMealName '' Tuna '', ChangeDailyTime ''18:30''] started"

text \<open>An alarm for the meal \<^verbatim>\<open>Tuna Casserole\<close> with the sentence typed in capitals.\<close>

definition tuna_casserole_alarm :: App where
  "tuna_casserole_alarm =
     run [NotificationReceived \<lparr>data_mealId = Some ''m1'', data_mealName = Some ''Tuna Casserole''\<rparr>,
          ChangeAlarmSentence ''My Name Is Sarah And I Will Use The Tuna Casserole Today'']
       started"


text \<open>An alarm whose meal is not in the list, with the sentence typed.\<close>

definition absent_meal_alarm :: App where
  "absent_meal_alarm =
     run [NotificationReceived \<lparr>data_mealId = Some ''m1'', data_mealName = Some ''tuna''\<rparr>,
          ChangeAlarmSentence ''my name is sarah and i will use the tuna today'']
       started"

text \<open>An alarm whose meal is in the list, with the sentence typed.\<close>

definition listed_meal_alarm :: App where
  "listed_meal_alarm =
     run [PressTool, ChangeMealName ''Tuna'', PressAdd 17 ''ab'' ''n-1'' 18,
          NotificationReceived \<lparr>data_mealId = Some ''17-ab'', data_mealName = Some ''Tuna''\<rparr>,
          ChangeAlarmSentence ''my name is sarah and i will use the tuna today'']
       started"

section \<open>The invariant of the vibration timer\<close>

text \<open>
  What holds of every reachable state once the effects have run. While the component is
  mounted: no dependency is waiting for its effect; the vibration effect has a cleanup
  function, and the ref holds a timer, exactly when a session is active; the running timers are
  the one in the ref; without a session the typed text is empty and no vibration is on. After
  unmounting no timer runs.
\<close>

definition timer_invariant :: "App \<Rightarrow> bool" where
  "timer_invariant s =
     (if mounted s then
        \<not> mealsChanged s \<and> \<not> activeAlarmChanged s
        \<and> vibrationCleanup s = (activeAlarm s \<noteq> None)
        \<and> (vibrationIntervalRef s = None) = (activeAlarm s = None)
        \<and> intervals s = (case vibrationIntervalRef s of None \<Rightarrow> [] | Some h \<Rightarrow> [h])
        \<and> (activeAlarm s = None \<longrightarrow> alarmSentence s = [] \<and> \<not> vibrating s)
      else intervals s = [] \<and> \<not> vibrating s)"

text \<open>The fields the vibration effect reads and writes, apart from the session itself.\<close>

definition timer_fields :: "App \<Rightarrow> bool \<times> nat option \<times> nat list \<times> nat \<times> bool" where
  "timer_fields s =
     (mounted s, vibrationIntervalRef s, intervals s, nextInterval s, vibrationCleanup s)"

text \<open>The session, whether it changed, the typed text and the vibration.\<close>

definition session_fields :: "App \<Rightarrow> ActiveAlarm option \<times> bool \<times> string \<times> bool" where
  "session_fields s = (activeAlarm s, activeAlarmChanged s, alarmSentence s, vibrating s)"

section \<open>Properties of the string functions\<close>

lemma charCode_digitChar: "d < 10 \<Longrightarrow> charCode (digitChar d) = 48 + d"
  by (simp add: charCode_def digitChar_def)

lemma charCode_literals:
  "charCode (CHR ''0'') = 48" "charCode (CHR ''1'') = 49" "charCode (CHR ''2'') = 50"
  "charCode (CHR ''3'') = 51" "charCode (CHR ''5'') = 53" "charCode (CHR ''9'') = 57"
  "charCode (CHR '':'') = 58"
  by (simp_all add: charCode_def)

lemma charCode_inj: "charCode c = charCode d \<longleftrightarrow> c = d"
  by (simp add: charCode_def)

lemma char_zero_digit: "CHR ''0'' = digitChar 0"
  by (simp add: charCode_inj [symmetric] charCode_digitChar charCode_literals)

lemma isDigit_digitChar: "d < 10 \<Longrightarrow> isDigit (digitChar d)"
  by (simp add: isDigit_def inClass_def charCode_digitChar charCode_literals)

lemma isDigit_iff: "isDigit c \<longleftrightarrow> (\<exists>d<10. c = digitChar d)"
proof
  assume "isDigit c"
  then have r: "48 \<le> charCode c" "charCode c \<le> 57"
    by (simp_all add: isDigit_def inClass_def charCode_literals)
  then have "charCode (digitChar (charCode c - 48)) = charCode c"
    by (simp add: charCode_digitChar)
  then have "c = digitChar (charCode c - 48)"
    by (simp add: charCode_inj)
  with r show "\<exists>d<10. c = digitChar d"
    by (intro exI [of _ "charCode c - 48"]) simp
next
  assume "\<exists>d<10. c = digitChar d"
  then show "isDigit c"
    by (auto simp: isDigit_digitChar)
qed

lemma inClass_digitChar:
  "d < 10 \<Longrightarrow> inClass (CHR ''0'') (CHR ''1'') (digitChar d) \<longleftrightarrow> d \<le> 1"
  "d < 10 \<Longrightarrow> inClass (CHR ''0'') (CHR ''3'') (digitChar d) \<longleftrightarrow> d \<le> 3"
  "d < 10 \<Longrightarrow> inClass (CHR ''0'') (CHR ''5'') (digitChar d) \<longleftrightarrow> d \<le> 5"
  by (auto simp: inClass_def charCode_digitChar charCode_literals)

lemma digitChar_eq_two: "d < 10 \<Longrightarrow> digitChar d = CHR ''2'' \<longleftrightarrow> d = 2"
  by (simp add: charCode_inj [symmetric] charCode_digitChar charCode_literals)

lemma digitChar_neq_colon: "d < 10 \<Longrightarrow> digitChar d \<noteq> CHR '':''"
  by (simp add: charCode_inj [symmetric] charCode_digitChar charCode_literals)

lemma colon_not_digit: "\<not> isDigit (CHR '':'')"
  by (simp add: isDigit_def inClass_def charCode_literals)

lemma digit_not_space: "isDigit c \<Longrightarrow> \<not> isWhiteSpace c"
  by (auto simp: isDigit_def inClass_def isWhiteSpace_def charCode_literals)

lemma digitVal_digitChar: "d < 10 \<Longrightarrow> digitVal (digitChar d) = d"
  by (simp add: digitVal_def charCode_digitChar)

lemma Number_digits_two:
  "a < 10 \<Longrightarrow> b < 10 \<Longrightarrow> Number_digits [digitChar a, digitChar b] = 10 * a + b"
  by (simp add: Number_digits_def digitVal_digitChar)

lemma Number_digits_one: "a < 10 \<Longrightarrow> Number_digits [digitChar a] = a"
  by (simp add: Number_digits_def digitVal_digitChar)

lemma toString_two_digits:
  assumes "n < 100"
  shows "padStart 2 (CHR ''0'') (toString_nat n) = [digitChar (n div 10), digitChar (n mod 10)]"
proof (cases "n < 10")
  case True
  then show ?thesis
    by (simp add: toString_nat.simps [of n] padStart_def char_zero_digit)
next
  case False
  with assms have "n div 10 < 10" by simp
  with False show ?thesis
    by (simp add: toString_nat.simps [of n] toString_nat.simps [of "n div 10"] padStart_def)
qed

lemma formatTime_digits:
  assumes "h < 100" "m < 100"
  shows "formatTime h m =
    [digitChar (h div 10), digitChar (h mod 10), CHR '':'', digitChar (m div 10), digitChar (m mod 10)]"
  using assms by (simp add: formatTime_def toString_two_digits)

lemma trim_no_space:
  assumes "\<not> isWhiteSpace a" "\<not> isWhiteSpace z"
  shows "trim (a # xs @ [z]) = a # xs @ [z]"
  using assms by (simp add: trim_def)

lemma digit_cases: "isDigit c \<Longrightarrow> (\<And>d. d < 10 \<Longrightarrow> c = digitChar d \<Longrightarrow> P) \<Longrightarrow> P"
  by (auto simp: isDigit_iff)

lemma not_ws_digitChar: "d < 10 \<Longrightarrow> \<not> isWhiteSpace (digitChar d)"
  by (simp add: digit_not_space isDigit_digitChar)

lemma exec_formatted:
  assumes "h < 24" "m < 60"
  shows "timeRegex_exec [digitChar (h div 10), digitChar (h mod 10), CHR '':'', digitChar (m div 10), digitChar (m mod 10)]
     = Some ([digitChar (h div 10), digitChar (h mod 10)], [digitChar (m div 10), digitChar (m mod 10)])"
proof -
  have b: "h div 10 < 10" "h mod 10 < 10" "m div 10 < 10" "m mod 10 < 10" "m div 10 \<le> 5"
    using assms by simp_all
  have tail: "minuteTail [CHR '':'', digitChar (m div 10), digitChar (m mod 10)]
      = Some [digitChar (m div 10), digitChar (m mod 10)]"
    using b by (simp add: minuteTail_def inClass_digitChar isDigit_digitChar)
  have tail4: "minuteTail [digitChar (h mod 10), CHR '':'', digitChar (m div 10), digitChar (m mod 10)] = None"
    by (simp add: minuteTail_def)
  show ?thesis
  proof (cases "h div 10 \<le> 1")
    case True
    then show ?thesis using b tail
      by (simp add: timeRegex_exec_def hourAlternatives_def inClass_digitChar isDigit_digitChar)
  next
    case False
    with assms have h2: "h div 10 = 2" "h mod 10 \<le> 3" by presburger+
    then show ?thesis using b tail tail4
      by (simp add: timeRegex_exec_def hourAlternatives_def inClass_digitChar isDigit_digitChar
          digitChar_eq_two)
  qed
qed

lemma hourAlternatives_sound:
  assumes "(g, r) \<in> set (hourAlternatives s)"
  shows "s = g @ r \<and>
    ((\<exists>a b. g = [a, b] \<and> inClass (CHR ''0'') (CHR ''1'') a \<and> isDigit b)
     \<or> (\<exists>b. g = [b] \<and> isDigit b)
     \<or> (\<exists>b. g = [CHR ''2'', b] \<and> inClass (CHR ''0'') (CHR ''3'') b))"
  using assms by (auto simp: hourAlternatives_def split: list.splits if_splits)

lemma minuteTail_Some:
  "minuteTail r = Some g \<longleftrightarrow>
     (\<exists>m1 m2. r = [CHR '':'', m1, m2] \<and> g = [m1, m2] \<and> inClass (CHR ''0'') (CHR ''5'') m1 \<and> isDigit m2)"
  by (auto simp: minuteTail_def split: list.splits)

lemma timeRegex_exec_Some:
  assumes "timeRegex_exec s = Some (g1, g2)"
  shows "\<exists>r. (g1, r) \<in> set (hourAlternatives s) \<and> minuteTail r = Some g2"
proof -
  let ?f = "\<lambda>(h, r). map_option (Pair h) (minuteTail r)"
  from assms have "(g1, g2) \<in> set (List.map_filter ?f (hourAlternatives s))"
    by (auto simp: timeRegex_exec_def split: list.splits)
  then obtain h r where hr: "(h, r) \<in> set (hourAlternatives s)"
      "map_option (Pair h) (minuteTail r) = Some (g1, g2)"
    by (auto simp: List.map_filter_def)
  from hr(2) have "h = g1" "minuteTail r = Some g2" by auto
  with hr(1) show ?thesis by blast
qed

lemma hour_text_value:
  assumes "(\<exists>a b. g = [a, b] \<and> inClass (CHR ''0'') (CHR ''1'') a \<and> isDigit b)
     \<or> (\<exists>b. g = [b] \<and> isDigit b)
     \<or> (\<exists>b. g = [CHR ''2'', b] \<and> inClass (CHR ''0'') (CHR ''3'') b)"
  shows "Number_digits g \<le> 23 \<and> list_all isDigit g"
  using assms
  by (auto simp: Number_digits_def digitVal_def inClass_def isDigit_def charCode_literals)

lemma minute_text_value:
  assumes "inClass (CHR ''0'') (CHR ''5'') m1" "isDigit m2"
  shows "Number_digits [m1, m2] \<le> 59 \<and> isDigit m1"
  using assms
  by (auto simp: Number_digits_def digitVal_def inClass_def isDigit_def charCode_literals)

lemma exec_imp_format:
  assumes "timeRegex_exec s = Some (g1, g2)"
  shows "spec_time_format s \<and> Number_digits g1 \<le> 23 \<and> Number_digits g2 \<le> 59 \<and> s = g1 @ '':'' @ g2"
proof -
  from timeRegex_exec_Some [OF assms] obtain r where
    r: "(g1, r) \<in> set (hourAlternatives s)" "minuteTail r = Some g2" by blast
  from r(2) obtain m1 m2 where
    m: "r = [CHR '':'', m1, m2]" "g2 = [m1, m2]" "inClass (CHR ''0'') (CHR ''5'') m1" "isDigit m2"
    by (auto simp: minuteTail_Some)
  note hs = hourAlternatives_sound [OF r(1)]
  note hv = hour_text_value [OF conjunct2 [OF hs]]
  note mv = minute_text_value [OF m(3,4)]
  have s: "s = g1 @ '':'' @ g2" using hs m by simp
  have "spec_time_format s"
    using hs hv mv m by (auto simp: spec_time_format_def)
  with hv mv m s show ?thesis by simp
qed

lemma format_imp_exec:
  assumes "spec_time_format s"
  shows "timeRegex_exec s \<noteq> None"
proof -
  from assms consider
    (short) h m1 m2 where "s = [h, CHR '':'', m1, m2]" "isDigit h" "isDigit m1" "isDigit m2"
      "Number_digits [m1, m2] \<le> 59"
  | (long) h1 h2 m1 m2 where "s = [h1, h2, CHR '':'', m1, m2]" "isDigit h1" "isDigit h2"
      "Number_digits [h1, h2] \<le> 23" "isDigit m1" "isDigit m2" "Number_digits [m1, m2] \<le> 59"
    by (auto simp: spec_time_format_def split: list.splits)
  then show ?thesis
  proof cases
    case short
    from short(3,4,5) have t: "minuteTail [CHR '':'', m1, m2] = Some [m1, m2]"
      by (auto simp: minuteTail_def isDigit_iff inClass_digitChar Number_digits_two)
    show ?thesis using short(2) t
      by (simp add: short(1) timeRegex_exec_def hourAlternatives_def colon_not_digit)
  next
    case long
    from long(5,6,7) have t: "minuteTail [CHR '':'', m1, m2] = Some [m1, m2]"
      by (auto simp: minuteTail_def isDigit_iff inClass_digitChar Number_digits_two)
    have t4: "minuteTail [h2, CHR '':'', m1, m2] = None"
      by (simp add: minuteTail_def)
    from long(2,3,4) have
      "inClass (CHR ''0'') (CHR ''1'') h1 \<or> (h1 = CHR ''2'' \<and> inClass (CHR ''0'') (CHR ''3'') h2)"
      by (auto simp: isDigit_iff inClass_digitChar Number_digits_two digitChar_eq_two)
    then show ?thesis using long(2,3) t t4
      by (auto simp: long(1) timeRegex_exec_def hourAlternatives_def)
  qed
qed

lemma class_digit:
  assumes "inClass (CHR ''0'') hi c" "charCode hi \<le> 57"
  obtains d where "d \<le> charCode hi - 48" "d < 10" "c = digitChar d"
proof -
  from assms have r: "48 \<le> charCode c" "charCode c \<le> charCode hi"
    by (simp_all add: inClass_def charCode_literals)
  with assms(2) have "charCode (digitChar (charCode c - 48)) = charCode c"
    by (simp add: charCode_digitChar)
  then have "c = digitChar (charCode c - 48)"
    by (simp add: charCode_inj)
  moreover have "charCode c - 48 \<le> charCode hi - 48" "charCode c - 48 < 10"
    using r assms(2) by simp_all
  ultimately show ?thesis using that by blast
qed

lemma two_is_digit: "CHR ''2'' = digitChar 2"
  by (simp add: charCode_inj [symmetric] charCode_digitChar charCode_literals)

lemma exec_Some_canonical:
  assumes "timeRegex_exec s = Some (g1, g2)"
  shows "Number_digits g1 \<le> 23 \<and> Number_digits g2 \<le> 59
    \<and> (s = formatTime (Number_digits g1) (Number_digits g2)
       \<or> Number_digits g1 \<le> 9 \<and> s = tl (formatTime (Number_digits g1) (Number_digits g2)))"
proof -
  from timeRegex_exec_Some [OF assms] obtain r where
    r: "(g1, r) \<in> set (hourAlternatives s)" "minuteTail r = Some g2" by blast
  from r(2) obtain m1 m2 where
    m: "r = [CHR '':'', m1, m2]" "g2 = [m1, m2]" "inClass (CHR ''0'') (CHR ''5'') m1" "isDigit m2"
    by (auto simp: minuteTail_Some)
  from m(3) obtain d1 where d1: "d1 \<le> 5" "m1 = digitChar d1"
    by (rule class_digit) (simp_all add: charCode_literals)
  from m(4) obtain d2 where d2: "d2 < 10" "m2 = digitChar d2"
    by (auto simp: isDigit_iff)
  have mv: "Number_digits g2 = 10 * d1 + d2"
    using d1 d2 m(2) by (simp add: Number_digits_two)
  then have mb: "Number_digits g2 \<le> 59" "Number_digits g2 div 10 = d1" "Number_digits g2 mod 10 = d2"
    using d1 d2 by simp_all
  note hs = hourAlternatives_sound [OF r(1)]
  then have s: "s = g1 @ r" by simp
  from hs consider
    (two) a b where "g1 = [a, b]" "inClass (CHR ''0'') (CHR ''1'') a" "isDigit b"
  | (one) b where "g1 = [b]" "isDigit b"
  | (twenty) b where "g1 = [CHR ''2'', b]" "inClass (CHR ''0'') (CHR ''3'') b"
    by blast
  then show ?thesis
  proof cases
    case two
    from two(2) obtain da where da: "da \<le> 1" "a = digitChar da"
      by (rule class_digit) (simp_all add: charCode_literals)
    from two(3) obtain db where db: "db < 10" "b = digitChar db"
      by (auto simp: isDigit_iff)
    have hv: "Number_digits g1 = 10 * da + db"
      using da db two(1) by (simp add: Number_digits_two)
    then have hb: "Number_digits g1 \<le> 23" "Number_digits g1 div 10 = da" "Number_digits g1 mod 10 = db"
      using da db by simp_all
    have "s = formatTime (Number_digits g1) (Number_digits g2)"
      using hb mb by (simp add: formatTime_digits s two(1) m(1) da db d1 d2)
    with hb mb show ?thesis by simp
  next
    case one
    from one(2) obtain db where db: "db < 10" "b = digitChar db"
      by (auto simp: isDigit_iff)
    have hv: "Number_digits g1 = db"
      using db one(1) by (simp add: Number_digits_one)
    then have hb: "Number_digits g1 \<le> 9" "Number_digits g1 div 10 = 0" "Number_digits g1 mod 10 = db"
      using db by simp_all
    have "s = tl (formatTime (Number_digits g1) (Number_digits g2))"
      using hb mb by (simp add: formatTime_digits s one(1) m(1) db d1 d2)
    with hb mb show ?thesis by simp
  next
    case twenty
    from twenty(2) obtain db where db: "db \<le> 3" "b = digitChar db"
      by (rule class_digit) (simp_all add: charCode_literals)
    have hv: "Number_digits g1 = 20 + db"
      using db twenty(1) by (simp add: Number_digits_two two_is_digit)
    have hb: "Number_digits g1 \<le> 23" "Number_digits g1 div 10 = 2" "Number_digits g1 mod 10 = db"
      using db unfolding hv by presburger+
    have "s = formatTime (Number_digits g1) (Number_digits g2)"
      using hb mb by (simp add: formatTime_digits s twenty(1) m(1) db d1 d2 two_is_digit)
    with hb mb show ?thesis by simp
  qed
qed

lemma parseTime_defined_iff: "parseTime raw \<noteq> None \<longleftrightarrow> spec_time_format (trim raw)"
proof
  assume "parseTime raw \<noteq> None"
  then obtain g1 g2 where "timeRegex_exec (trim raw) = Some (g1, g2)"
    by (auto simp: parseTime_def split: option.splits)
  then show "spec_time_format (trim raw)"
    using exec_imp_format by blast
next
  assume "spec_time_format (trim raw)"
  then have "timeRegex_exec (trim raw) \<noteq> None" by (rule format_imp_exec)
  then show "parseTime raw \<noteq> None"
    by (auto simp: parseTime_def split: option.splits)
qed

section \<open>Properties of the effects and handlers\<close>

lemmas setter_defs = setActiveAlarm_def setMeals_def setScreen_def setMealName_def
  setDailyTime_def setAlarmSentence_def Alert_alert_def Vibration_vibrate_def Vibration_cancel_def
  startVibrationInterval_def clearVibrationInterval_def scheduleNotification_def
  cancelScheduledNotification_def

lemmas effect_defs = persistEffect_def vibrationEffect_def vibrationEffect_cleanup_def
  listenerEffect_def listenerEffect_cleanup_def

lemma invariant_mount: "timer_invariant (mount (initialApp stored sched))"
  by (simp add: timer_invariant_def mount_def initialApp_def effect_defs setter_defs)

lemma timer_fields_setters [simp]:
  "timer_fields (setActiveAlarm v s) = timer_fields s"
  "timer_fields (setMeals ms s) = timer_fields s"
  "timer_fields (setScreen sc s) = timer_fields s"
  "timer_fields (setMealName t s) = timer_fields s"
  "timer_fields (setDailyTime t s) = timer_fields s"
  "timer_fields (setAlarmSentence t s) = timer_fields s"
  "timer_fields (Alert_alert a b s) = timer_fields s"
  "timer_fields (Vibration_vibrate s) = timer_fields s"
  "timer_fields (scheduleNotification h r s) = timer_fields s"
  "timer_fields (cancelScheduledNotification h s) = timer_fields s"
  by (simp_all add: timer_fields_def setter_defs)

lemma timer_fields_cancelMealAlarm [simp]:
  "timer_fields (cancelMealAlarm mid s) = timer_fields s"
  by (simp add: cancelMealAlarm_def Let_def split: option.splits)

lemma timer_fields_addMeal [simp]:
  "timer_fields (addMeal n r h n2 s) = timer_fields s"
  by (simp add: addMeal_def Let_def split: option.splits prod.splits)

lemma timer_fields_listeners [simp]:
  "timer_fields (notificationReceivedListener d s) = timer_fields s"
  "timer_fields (notificationResponseListener d s) = timer_fields s"
  "timer_fields (lastResponseCheck l s) = timer_fields s"
  by (simp_all add: notificationReceivedListener_def notificationResponseListener_def
      lastResponseCheck_def split: option.splits)

lemma timer_fields_setupNotifications [simp]:
  "timer_fields (setupNotifications st rq l s) = timer_fields s"
proof -
  have upd: "\<And>x c. timer_fields (x\<lparr>channels := c\<rparr>) = timer_fields x"
    "\<And>x c. timer_fields (x\<lparr>setupPending := c\<rparr>) = timer_fields x"
    by (simp_all add: timer_fields_def)
  show ?thesis
    by (simp add: setupNotifications_def Let_def upd split: option.splits)
qed

lemma timer_fields_handler: "e \<noteq> Unmount \<Longrightarrow> timer_fields (handler e s) = timer_fields s"
  by (cases e) (simp_all split: option.splits)

lemma session_fields_setters [simp]:
  "session_fields (setMeals ms s) = session_fields s"
  "session_fields (setScreen sc s) = session_fields s"
  "session_fields (setMealName t s) = session_fields s"
  "session_fields (setDailyTime t s) = session_fields s"
  "session_fields (Alert_alert a b s) = session_fields s"
  "session_fields (scheduleNotification h r s) = session_fields s"
  "session_fields (cancelScheduledNotification h s) = session_fields s"
  by (simp_all add: session_fields_def setter_defs)

lemma session_fields_addMeal [simp]:
  "session_fields (addMeal n r h n2 s) = session_fields s"
  by (simp add: addMeal_def Let_def split: option.splits prod.splits)

lemma runEffects_invariant:
  assumes "mounted s"
    and "vibrationCleanup s = (vibrationIntervalRef s \<noteq> None)"
    and "intervals s = (case vibrationIntervalRef s of None \<Rightarrow> [] | Some h \<Rightarrow> [h])"
    and "\<not> activeAlarmChanged s \<Longrightarrow>
           (vibrationIntervalRef s = None) = (activeAlarm s = None)
           \<and> (activeAlarm s = None \<longrightarrow> alarmSentence s = [] \<and> \<not> vibrating s)"
  shows "timer_invariant (runEffects s)"
proof (cases "activeAlarmChanged s")
  case False
  with assms show ?thesis
    by (simp add: runEffects_def timer_invariant_def persistEffect_def Let_def)
next
  case True
  show ?thesis
  proof (cases "vibrationIntervalRef s")
    case None
    with True assms(1,2,3) show ?thesis
      by (cases "activeAlarm s")
        (simp_all add: runEffects_def timer_invariant_def effect_defs setter_defs Let_def)
  next
    case (Some h)
    with True assms(1,2,3) show ?thesis
      by (cases "activeAlarm s")
        (simp_all add: runEffects_def timer_invariant_def effect_defs setter_defs Let_def)
  qed
qed

lemma runEffects_keeps:
  "activeAlarm (runEffects s) = activeAlarm s"
  "mounted (runEffects s) = mounted s"
  "meals (runEffects s) = meals s"
  "screen (runEffects s) = screen s"
  "scheduled (runEffects s) = scheduled s"
  "alerts (runEffects s) = alerts s"
  "mealNameInput (runEffects s) = mealNameInput s"
  "dailyTime (runEffects s) = dailyTime s"
  by (simp_all add: runEffects_def effect_defs setter_defs Let_def split: option.splits)

lemma runEffects_storage:
  "storage (runEffects s) = (if mealsChanged s then Some (meals s) else storage s)"
  "storageWrites (runEffects s) =
     (if mealsChanged s then storageWrites s @ [meals s] else storageWrites s)"
  by (simp_all add: runEffects_def effect_defs setter_defs Let_def split: option.splits)


lemma runEffects_settled:
  assumes "\<not> mealsChanged s" "\<not> activeAlarmChanged s"
  shows "runEffects s = s"
  using assms by (simp add: runEffects_def)


lemma session_fields_eqD:
  assumes "session_fields s' = session_fields s"
  shows "activeAlarm s' = activeAlarm s" "activeAlarmChanged s' = activeAlarmChanged s"
    "alarmSentence s' = alarmSentence s" "vibrating s' = vibrating s"
  using assms by (simp_all add: session_fields_def)

lemma setActiveAlarm_session:
  "activeAlarm (setActiveAlarm v s) = v"
  "activeAlarmChanged (setActiveAlarm v s) = (activeAlarmChanged s \<or> v \<noteq> None \<or> activeAlarm s \<noteq> None)"
  "alarmSentence (setActiveAlarm v s) = alarmSentence s"
  "vibrating (setActiveAlarm v s) = vibrating s"
  by (auto simp: setActiveAlarm_def)

text \<open>
  What a handler does to the session: nothing, or one \<open>setActiveAlarm\<close>, or a change of
  the typed text, or a vibration pulse.
\<close>

lemma handler_session_cases:
  assumes "e \<noteq> Unmount"
  shows "session_fields (handler e s) = session_fields s
      \<or> (\<exists>v. session_fields (handler e s) = session_fields (setActiveAlarm v s))
      \<or> (\<exists>t. e = ChangeAlarmSentence t \<and> handler e s = setAlarmSentence t s)
      \<or> (\<exists>h. e = IntervalTick h \<and> handler e s = Vibration_vibrate s)"
proof (cases e)
  case (SetupDone st rq lr)
  have upd: "\<And>x c. session_fields (x\<lparr>channels := c\<rparr>) = session_fields x"
    "\<And>x c. session_fields (x\<lparr>setupPending := c\<rparr>) = session_fields x"
    "\<And>x v c. session_fields (setActiveAlarm v (x\<lparr>channels := c\<rparr>)) = session_fields (setActiveAlarm v x)"
    "\<And>x v c. session_fields (setActiveAlarm v (setMeals c x)) = session_fields (setActiveAlarm v x)"
    "\<And>x v a b. session_fields (setActiveAlarm v (Alert_alert a b x)) = session_fields (setActiveAlarm v x)"
    by (simp_all add: session_fields_def setter_defs)
  show ?thesis
    by (simp add: SetupDone setupNotifications_def lastResponseCheck_def Let_def upd
        split: option.splits) blast
next
  case (NotificationReceived d)
  have upd: "\<And>x v c. session_fields (setScreen c x) = session_fields x"
    by (simp add: session_fields_def setter_defs)
  show ?thesis
    by (simp add: NotificationReceived notificationReceivedListener_def upd) blast
next
  case (NotificationResponse d)
  have upd: "\<And>x v c. session_fields (setScreen c x) = session_fields x"
    by (simp add: session_fields_def setter_defs)
  show ?thesis
    by (simp add: NotificationResponse notificationResponseListener_def upd) blast
next
  case (PressCancelItem m)
  have upd: "\<And>x v c h. session_fields (setActiveAlarm v (setMeals c (cancelScheduledNotification h x)))
      = session_fields (setActiveAlarm v x)"
    by (simp add: session_fields_def setter_defs)
  show ?thesis
    by (simp add: PressCancelItem cancelMealAlarm_def Let_def upd split: option.splits) blast
next
  case PressCancelThisAlarm
  have upd: "\<And>x v c h. session_fields (setActiveAlarm v (setMeals c (cancelScheduledNotification h x)))
      = session_fields (setActiveAlarm v x)"
    by (simp add: session_fields_def setter_defs)
  show ?thesis
    by (simp add: PressCancelThisAlarm cancelMealAlarm_def Let_def upd split: option.splits) blast
next
  case PressDismiss
  then show ?thesis by auto
qed (use assms in simp_all)



lemma enabled_mounted: "enabled e s \<Longrightarrow> mounted s"
  by (cases e) simp_all

lemma invariant_step:
  assumes inv: "timer_invariant s" and en: "enabled e s"
  shows "timer_invariant (step e s)"
proof (cases "e = Unmount")
  case True
  from en have "mounted s" by (rule enabled_mounted)
  with inv show ?thesis
    by (cases "vibrationIntervalRef s")
      (simp_all add: True step_def unmount_def timer_invariant_def effect_defs setter_defs Let_def)
next
  case False
  from en have m: "mounted s" by (rule enabled_mounted)
  let ?s = "handler e s"
  from inv m have i: "\<not> activeAlarmChanged s" "vibrationCleanup s = (activeAlarm s \<noteq> None)"
    "(vibrationIntervalRef s = None) = (activeAlarm s = None)"
    "intervals s = (case vibrationIntervalRef s of None \<Rightarrow> [] | Some h \<Rightarrow> [h])"
    "activeAlarm s = None \<longrightarrow> alarmSentence s = [] \<and> \<not> vibrating s"
    by (simp_all add: timer_invariant_def)
  have tf: "timer_fields ?s = timer_fields s"
    using False by (rule timer_fields_handler)
  then have t: "mounted ?s = mounted s" "vibrationIntervalRef ?s = vibrationIntervalRef s"
    "intervals ?s = intervals s" "vibrationCleanup ?s = vibrationCleanup s"
    by (simp_all add: timer_fields_def)
  have sess: "\<not> activeAlarmChanged ?s \<Longrightarrow>
      (vibrationIntervalRef ?s = None) = (activeAlarm ?s = None)
      \<and> (activeAlarm ?s = None \<longrightarrow> alarmSentence ?s = [] \<and> \<not> vibrating ?s)"
  proof -
    assume nc: "\<not> activeAlarmChanged ?s"
    from handler_session_cases [OF False, of s] show ?thesis
    proof (elim disjE exE conjE)
      assume "session_fields ?s = session_fields s"
      with i t show ?thesis by (simp add: session_fields_def)
    next
      fix v assume "session_fields ?s = session_fields (setActiveAlarm v s)"
      with nc i t show ?thesis by (auto simp: session_fields_def setter_defs)
    next
      fix tx assume e: "e = ChangeAlarmSentence tx" "handler e s = setAlarmSentence tx s"
      with en have "activeAlarm s \<noteq> None" by simp
      with e i t show ?thesis by (auto simp: setter_defs)
    next
      fix h assume e: "e = IntervalTick h" "handler e s = Vibration_vibrate s"
      with en have "h \<in> set (intervals s)" by simp
      with i have "activeAlarm s \<noteq> None" by (cases "vibrationIntervalRef s") auto
      with e i t show ?thesis by (auto simp: setter_defs)
    qed
  qed
  have "timer_invariant (runEffects ?s)"
  proof (rule runEffects_invariant)
    show "mounted ?s" using t m by simp
    show "vibrationCleanup ?s = (vibrationIntervalRef ?s \<noteq> None)" using t i by simp
    show "intervals ?s = (case vibrationIntervalRef ?s of None \<Rightarrow> [] | Some h \<Rightarrow> [h])"
      using t i by simp
  qed (rule sess)
  with False show ?thesis
    by (cases e) (simp_all add: step_def)
qed

lemma reachable_invariant: "reachable s \<Longrightarrow> timer_invariant s"
  by (induction rule: reachable.induct) (auto intro: invariant_mount invariant_step)


section \<open>Properties of the reachable states\<close>

lemma reachable_run: "reachable s \<Longrightarrow> all_enabled es s \<Longrightarrow> reachable (run es s)"
  by (induction es arbitrary: s) (auto intro: reachable.next_step)

lemma reachable_started: "reachable started"
  unfolding started_def by (rule reachable.start)

lemma reachable_settled:
  assumes "reachable s" "mounted s"
  shows "\<not> mealsChanged s" "\<not> activeAlarmChanged s"
  using reachable_invariant [OF assms(1)] assms(2) by (simp_all add: timer_invariant_def)

lemma truthy_Some: "truthy (Some t) = (t \<noteq> [])" "truthy None = False"
  by (simp_all add: truthy_def)

lemma addMeal_rejected:
  assumes "trim (mealNameInput s) = [] \<or> parseTime (dailyTime s) = None"
  shows "addMeal now rand handle now2 s =
     s\<lparr>alerts := alerts s @
        [if trim (mealNameInput s) = []
         then (''Meal required'', ''Enter a meal name like Tuna casserole.'')
         else (''Time format'', ''Use 24h HH:MM format, for example 18:30.'')]\<rparr>"
  using assms by (auto simp: addMeal_def Alert_alert_def Let_def)

lemma length_toLowerCase: "length (toLowerCase s) = length s"
  by (simp add: toLowerCase_def)

lemma trim_snoc:
  assumes "\<not> isWhiteSpace c"
  shows "trim (t @ [c]) = dropWhile isWhiteSpace t @ [c]"
proof -
  have "dropWhile isWhiteSpace (t @ [c]) = dropWhile isWhiteSpace t @ [c]"
    using assms by (simp add: dropWhile_append)
  then show ?thesis
    using assms by (simp add: trim_def)
qed

lemma length_trim_le: "length (trim t) \<le> length (dropWhile isWhiteSpace t)"
proof -
  have "length (trim t) = length (dropWhile isWhiteSpace (rev (dropWhile isWhiteSpace t)))"
    by (simp add: trim_def)
  also have "\<dots> \<le> length (rev (dropWhile isWhiteSpace t))"
    by (rule length_dropWhile_le)
  finally show ?thesis by simp
qed

lemma canAcknowledge_trailing:
  assumes "canAcknowledge t r" "\<not> isWhiteSpace c"
  shows "\<not> canAcknowledge (t @ [c]) r"
proof
  assume "canAcknowledge (t @ [c]) r"
  then have "length r = Suc (length (dropWhile isWhiteSpace t))"
    using assms(2) by (auto simp: canAcknowledge_def trim_snoc length_toLowerCase)
  moreover from assms(1) have "length r = length (trim t)"
    by (auto simp: canAcknowledge_def length_toLowerCase)
  ultimately show False
    using length_trim_le [of t] by simp
qed



lemma idle_state:
  assumes "reachable s" "activeAlarm s = None"
  shows "intervals s = []" "\<not> vibrating s"
    "mounted s \<Longrightarrow> alarmSentence s = []"
    "mounted s \<Longrightarrow> vibrationIntervalRef s = None"
    "mounted s \<Longrightarrow> \<not> vibrationCleanup s"
  using reachable_invariant [OF assms(1)] assms(2)
  by (auto simp: timer_invariant_def split: if_splits)





lemma cancelMealAlarm_session_meal:
  assumes "List.find (\<lambda>meal. entry_id meal = mealId a) (meals s) = Some target"
    and "activeAlarm s = Some a"
  shows "cancelMealAlarm (mealId a) s =
     setActiveAlarm None
       (setMeals (filter (\<lambda>meal. entry_id meal \<noteq> mealId a) (meals s))
          (cancelScheduledNotification (notificationId target) s))"
  using assms by (simp add: cancelMealAlarm_def Let_def cancelScheduledNotification_def)

section \<open>The claims\<close>

text \<open>
  Claim C1. While a session for a meal named \<open>N\<close> is active, \<^verbatim>\<open>Dismiss For Now\<close> and
  \<^verbatim>\<open>Cancel This Alarm\<close> can be pressed exactly when the typed text, trimmed and then put in
  lower case, is \<^verbatim>\<open>my name is sarah and i will use the\<close>, the lower-case \<open>N\<close> and
  \<^verbatim>\<open>today\<close>, separated by single spaces. The check \<open>canAcknowledge\<close> is a function of the
  typed text and the required sentence, which is a function of \<open>N\<close>. For the meal
  \<^verbatim>\<open>Tuna Casserole\<close> the sentence typed with capital initials matches; the same text followed
  by any character that is not white space does not, and neither does the text with two
  spaces inside.
\<close>

theorem sentence_gate:
  assumes "mounted s" "activeAlarm s = Some a"
  shows "(enabled PressDismiss s \<longleftrightarrow>
        toLowerCase (trim (alarmSentence s))
          = ''my name is sarah and i will use the '' @ toLowerCase (mealName a) @ '' today'')
    \<and> (enabled PressCancelThisAlarm s \<longleftrightarrow>
        toLowerCase (trim (alarmSentence s))
          = ''my name is sarah and i will use the '' @ toLowerCase (mealName a) @ '' today'')
    \<and> requiredSentence (Some \<lparr>mealId = i, mealName = ''Tuna Casserole''\<rparr>)
        = ''my name is sarah and i will use the tuna casserole today''
    \<and> canAcknowledge ''My Name Is Sarah And I Will Use The Tuna Casserole Today''
        (requiredSentence (Some \<lparr>mealId = i, mealName = ''Tuna Casserole''\<rparr>))
    \<and> (\<not> isWhiteSpace c \<longrightarrow>
        \<not> canAcknowledge (''My Name Is Sarah And I Will Use The Tuna Casserole Today'' @ [c])
            (requiredSentence (Some \<lparr>mealId = i, mealName = ''Tuna Casserole''\<rparr>)))
    \<and> \<not> canAcknowledge ''My Name Is Sarah And I Will Use The Tuna  Casserole Today''
        (requiredSentence (Some \<lparr>mealId = i, mealName = ''Tuna Casserole''\<rparr>))"
proof -
  have gate: "enabled PressDismiss s \<longleftrightarrow>
        toLowerCase (trim (alarmSentence s))
          = ''my name is sarah and i will use the '' @ toLowerCase (mealName a) @ '' today''"
    "enabled PressCancelThisAlarm s \<longleftrightarrow>
        toLowerCase (trim (alarmSentence s))
          = ''my name is sarah and i will use the '' @ toLowerCase (mealName a) @ '' today''"
    using assms by (simp_all add: canAcknowledge_def requiredSentence_def)
  have low: "toLowerCase ''Tuna Casserole'' = ''tuna casserole''" by code_simp
  have req: "requiredSentence (Some \<lparr>mealId = i, mealName = ''Tuna Casserole''\<rparr>)
        = ''my name is sarah and i will use the tuna casserole today''"
    by (simp add: requiredSentence_def low)
  have typed: "toLowerCase (trim ''My Name Is Sarah And I Will Use The Tuna Casserole Today'')
      = ''my name is sarah and i will use the tuna casserole today''"
    by code_simp
  have ok: "canAcknowledge ''My Name Is Sarah And I Will Use The Tuna Casserole Today''
        (requiredSentence (Some \<lparr>mealId = i, mealName = ''Tuna Casserole''\<rparr>))"
    unfolding canAcknowledge_def req by (rule typed)
  have double: "toLowerCase (trim ''My Name Is Sarah And I Will Use The Tuna  Casserole Today'')
      \<noteq> ''my name is sarah and i will use the tuna casserole today''"
    by code_simp
  have bad: "\<not> canAcknowledge ''My Name Is Sarah And I Will Use The Tuna  Casserole Today''
        (requiredSentence (Some \<lparr>mealId = i, mealName = ''Tuna Casserole''\<rparr>))"
    unfolding canAcknowledge_def req by (rule double)
  from gate req ok bad canAcknowledge_trailing [OF ok] show ?thesis by blast
qed

text \<open>An instance: the alarm for \<^verbatim>\<open>Tuna Casserole\<close>, and a full stop after the sentence.\<close>

theorem sentence_gate_witness:
  "mounted tuna_casserole_alarm
   \<and> activeAlarm tuna_casserole_alarm = Some \<lparr>mealId = ''m1'', mealName = ''Tuna Casserole''\<rparr>
   \<and> enabled PressDismiss tuna_casserole_alarm
   \<and> enabled PressCancelThisAlarm tuna_casserole_alarm
   \<and> \<not> isWhiteSpace (CHR ''.'')
   \<and> \<not> canAcknowledge (''My Name Is Sarah And I Will Use The Tuna Casserole Today'' @ [CHR ''.''])
        (requiredSentence (Some \<lparr>mealId = ''m1'', mealName = ''Tuna Casserole''\<rparr>))"
proof -
  have m: "mounted tuna_casserole_alarm" by code_simp
  have a: "activeAlarm tuna_casserole_alarm = Some \<lparr>mealId = ''m1'', mealName = ''Tuna Casserole''\<rparr>"
    by code_simp
  have t: "toLowerCase (trim (alarmSentence tuna_casserole_alarm))
      = ''my name is sarah and i will use the ''
        @ toLowerCase (mealName \<lparr>mealId = ''m1'', mealName = ''Tuna Casserole''\<rparr>) @ '' today''"
    by code_simp
  have w: "\<not> isWhiteSpace (CHR ''.'')" by code_simp
  from sentence_gate [OF m a, of "''m1''" "CHR ''.''"] t w m a show ?thesis by blast
qed

text \<open>
  Claim C2. For every hour \<open>h\<close> in 0..23 and minute \<open>m\<close> in 0..59, \<open>formatTime h m\<close> is
  the five-character text of two hour digits, a colon and two minute digits (zero-padded
  \<^verbatim>\<open>HH:MM\<close>), and \<open>parseTime\<close> of it succeeds with exactly \<open>(h, m)\<close>.
\<close>

theorem parseTime_formatTime_roundtrip:
  assumes "h < 24" "m < 60"
  shows "formatTime h m =
      [digitChar (h div 10), digitChar (h mod 10), CHR '':'', digitChar (m div 10), digitChar (m mod 10)]
    \<and> parseTime (formatTime h m) = Some (h, m)"
proof -
  have b: "h div 10 < 10" "h mod 10 < 10" "m div 10 < 10" "m mod 10 < 10"
    using assms by simp_all
  have f: "formatTime h m =
      [digitChar (h div 10), digitChar (h mod 10), CHR '':'', digitChar (m div 10), digitChar (m mod 10)]"
    using assms by (simp add: formatTime_digits)
  have t: "trim (formatTime h m) = formatTime h m"
    using b by (simp add: f trim_def not_ws_digitChar)
  have "parseTime (formatTime h m) = Some (h, m)"
    using b assms by (simp add: parseTime_def t) (simp add: f exec_formatted Number_digits_two)
  with f show ?thesis by simp
qed

text \<open>An instance: 18:05.\<close>

theorem parseTime_formatTime_roundtrip_witness:
  "(18::nat) < 24 \<and> (5::nat) < 60 \<and> formatTime 18 5 = ''18:05''
   \<and> parseTime (formatTime 18 5) = Some (18, 5)"
proof -
  have f: "formatTime 18 5 = ''18:05''" by code_simp
  have h: "(18::nat) < 24" "(5::nat) < 60" by simp_all
  from parseTime_formatTime_roundtrip [OF h] f h show ?thesis by blast
qed

text \<open>
  Claim C3, as the specification states it, says that \<open>parseTime\<close> accepts only the texts
  of the form \<^verbatim>\<open>H:MM\<close> or \<^verbatim>\<open>HH:MM\<close>. The source trims its argument first, so a text with
  white space around the time is accepted although it is not of that form.
\<close>

theorem parseTime_untrimmed_counterexample:
  "\<not> spec_time_format '' 18:30 '' \<and> parseTime '' 18:30 '' = Some (18, 30)"
  by code_simp

text \<open>
  Claim C3, amended. \<open>parseTime\<close> is total (it returns \<open>None\<close> or a pair, there is no
  exception in it) and accepts a text exactly when the text, with the white space at both
  ends removed, has the form \<^verbatim>\<open>H:MM\<close> or \<^verbatim>\<open>HH:MM\<close> with hour 0-23 and minute 00-59. An
  accepted text is, once trimmed, the rendering \<open>formatTime h m\<close> of the result, or that
  rendering without its leading zero. The texts \<^verbatim>\<open>24:00\<close>, \<^verbatim>\<open>12:60\<close>, \<^verbatim>\<open>1830\<close>, the empty
  text and \<^verbatim>\<open>9:5\<close> are rejected.
\<close>

theorem parseTime_accepts_trimmed_format:
  "(parseTime raw \<noteq> None \<longleftrightarrow> spec_time_format (trim raw))
   \<and> (parseTime raw = Some (h, m) \<longrightarrow>
        h \<le> 23 \<and> m \<le> 59 \<and> (trim raw = formatTime h m \<or> h \<le> 9 \<and> trim raw = tl (formatTime h m)))
   \<and> parseTime ''24:00'' = None \<and> parseTime ''12:60'' = None \<and> parseTime ''1830'' = None
   \<and> parseTime [] = None \<and> parseTime ''9:5'' = None"
proof -
  have value_ok: "parseTime raw = Some (h, m) \<longrightarrow>
        h \<le> 23 \<and> m \<le> 59 \<and> (trim raw = formatTime h m \<or> h \<le> 9 \<and> trim raw = tl (formatTime h m))"
  proof
    assume "parseTime raw = Some (h, m)"
    then obtain g1 g2 where g: "timeRegex_exec (trim raw) = Some (g1, g2)"
        "h = Number_digits g1" "m = Number_digits g2"
      by (auto simp: parseTime_def split: option.splits)
    from exec_Some_canonical [OF g(1)] g(2,3)
    show "h \<le> 23 \<and> m \<le> 59 \<and> (trim raw = formatTime h m \<or> h \<le> 9 \<and> trim raw = tl (formatTime h m))"
      by simp
  qed
  have rejects: "parseTime ''24:00'' = None" "parseTime ''12:60'' = None" "parseTime ''1830'' = None"
    "parseTime [] = None" "parseTime ''9:5'' = None"
    by code_simp+
  from parseTime_defined_iff value_ok rejects show ?thesis by blast
qed

text \<open>An instance: the text \<^verbatim>\<open>7:05\<close> between two spaces.\<close>

theorem parseTime_accepts_trimmed_format_witness:
  "parseTime '' 7:05 '' = Some (7, 5) \<and> spec_time_format (trim '' 7:05 '')
   \<and> (7::nat) \<le> 23 \<and> (5::nat) \<le> 59 \<and> trim '' 7:05 '' = tl (formatTime 7 5)"
proof -
  have p: "parseTime '' 7:05 '' = Some (7, 5)" by code_simp
  have f: "trim '' 7:05 '' \<noteq> formatTime 7 5" by code_simp
  from parseTime_accepts_trimmed_format [of "'' 7:05 ''" 7 5] p f show ?thesis by blast
qed

text \<open>
  Claim C4. In every state, adding a meal whose name trims to a non-empty text and whose
  time text parses to \<open>(h, m)\<close> registers exactly one new trigger, for \<open>h\<close> and \<open>m\<close>,
  carrying the id made in this call (the clock reading, a dash, the random text) and the
  trimmed name; and puts exactly one new entry, with that id, the trimmed name, \<open>h\<close> and
  \<open>m\<close>, in front of the list, whose other entries stay as they were, in their order. No
  dialog is shown, and the render that follows stores the new list.
\<close>

theorem addMeal_registers_and_prepends:
  assumes "trim (mealNameInput s) \<noteq> []" "parseTime (dailyTime s) = Some (h, m)"
  shows "meals (addMeal now rand handle now2 s) =
       \<lparr>entry_id = toString_nat now @ ''-'' @ rand, name = trim (mealNameInput s),
        hour = h, minute = m, notificationId = handle, createdAt = now2\<rparr> # meals s
    \<and> scheduled (addMeal now rand handle now2 s) =
       scheduled s @
       [(handle,
         \<lparr>title = ''Food Waste Preventer'',
          body = ''Use your '' @ trim (mealNameInput s) @ '' today.'',
          sound = ''default'',
          data = \<lparr>data_mealId = Some (toString_nat now @ ''-'' @ rand),
                  data_mealName = Some (trim (mealNameInput s))\<rparr>,
          trigger_type = ''daily'', trigger_hour = h, trigger_minute = m,
          channelId = ''food-reminders''\<rparr>)]
    \<and> alerts (addMeal now rand handle now2 s) = alerts s
    \<and> meals (step (PressAdd now rand handle now2) s) = meals (addMeal now rand handle now2 s)
    \<and> scheduled (step (PressAdd now rand handle now2) s) = scheduled (addMeal now rand handle now2 s)
    \<and> storage (step (PressAdd now rand handle now2) s) = Some (meals (addMeal now rand handle now2 s))"
proof -
  have a: "addMeal now rand handle now2 s =
     setMealName []
       (setMeals
          (\<lparr>entry_id = toString_nat now @ ''-'' @ rand, name = trim (mealNameInput s),
            hour = h, minute = m, notificationId = handle, createdAt = now2\<rparr> # meals s)
          (scheduleNotification handle
             \<lparr>title = ''Food Waste Preventer'',
              body = ''Use your '' @ trim (mealNameInput s) @ '' today.'',
              sound = ''default'',
              data = \<lparr>data_mealId = Some (toString_nat now @ ''-'' @ rand),
                      data_mealName = Some (trim (mealNameInput s))\<rparr>,
              trigger_type = ''daily'', trigger_hour = h, trigger_minute = m,
              channelId = ''food-reminders''\<rparr> s))"
    using assms by (simp add: addMeal_def Let_def scheduleNotification_def)
  have f: "meals (addMeal now rand handle now2 s) =
       \<lparr>entry_id = toString_nat now @ ''-'' @ rand, name = trim (mealNameInput s),
        hour = h, minute = m, notificationId = handle, createdAt = now2\<rparr> # meals s"
    "scheduled (addMeal now rand handle now2 s) =
       scheduled s @
       [(handle,
         \<lparr>title = ''Food Waste Preventer'',
          body = ''Use your '' @ trim (mealNameInput s) @ '' today.'',
          sound = ''default'',
          data = \<lparr>data_mealId = Some (toString_nat now @ ''-'' @ rand),
                  data_mealName = Some (trim (mealNameInput s))\<rparr>,
          trigger_type = ''daily'', trigger_hour = h, trigger_minute = m,
          channelId = ''food-reminders''\<rparr>)]"
    "alerts (addMeal now rand handle now2 s) = alerts s"
    "mealsChanged (addMeal now rand handle now2 s)"
    by (simp_all add: a setter_defs)
  have st: "step (PressAdd now rand handle now2) s = runEffects (addMeal now rand handle now2 s)"
    by (simp add: step_def)
  have "meals (step (PressAdd now rand handle now2) s) = meals (addMeal now rand handle now2 s)"
    "scheduled (step (PressAdd now rand handle now2) s) = scheduled (addMeal now rand handle now2 s)"
    "storage (step (PressAdd now rand handle now2) s) = Some (meals (addMeal now rand handle now2 s))"
    by (simp_all add: st runEffects_keeps runEffects_storage f(4))
  with f(1,2,3) show ?thesis by simp
qed

text \<open>An instance: the name \<^verbatim>\<open>Tuna\<close> between two spaces, and the time \<^verbatim>\<open>18:30\<close>.\<close>

theorem addMeal_registers_and_prepends_witness:
  "trim (mealNameInput tuna_form) \<noteq> [] \<and> parseTime (dailyTime tuna_form) = Some (18, 30)
   \<and> meals (step (PressAdd 17 ''ab12cd'' ''n-1'' 18) tuna_form) =
       [\<lparr>entry_id = toString_nat 17 @ ''-ab12cd'', name = ''Tuna'', hour = 18, minute = 30,
         notificationId = ''n-1'', createdAt = 18\<rparr>]
   \<and> length (scheduled (step (PressAdd 17 ''ab12cd'' ''n-1'' 18) tuna_form)) = 1"
proof -
  have t: "trim (mealNameInput tuna_form) = ''Tuna''" by code_simp
  then have n: "trim (mealNameInput tuna_form) \<noteq> []" by simp
  have p: "parseTime (dailyTime tuna_form) = Some (18, 30)" by code_simp
  have e: "meals tuna_form = []" "scheduled tuna_form = []" by code_simp+
  from addMeal_registers_and_prepends [OF n p, of 17 "''ab12cd''" "''n-1''" 18] t p e
  show ?thesis by simp
qed

text \<open>
  Claim C5. In every state, adding a meal whose name trims to the empty text, or whose
  time text does not parse, shows one dialog and changes nothing else: the state after
  \<open>addMeal\<close> is the state before with the dialog added. In a reachable state the render
  that follows runs no effect, so the meal list, the scheduled triggers, the stored value
  and the list of storage writes are what they were.
\<close>

theorem addMeal_invalid_input_changes_nothing:
  assumes "trim (mealNameInput s) = [] \<or> parseTime (dailyTime s) = None"
  shows "addMeal now rand handle now2 s =
       s\<lparr>alerts := alerts s @
          [if trim (mealNameInput s) = []
           then (''Meal required'', ''Enter a meal name like Tuna casserole.'')
           else (''Time format'', ''Use 24h HH:MM format, for example 18:30.'')]\<rparr>
    \<and> (reachable s \<and> mounted s \<longrightarrow>
         step (PressAdd now rand handle now2) s = addMeal now rand handle now2 s
         \<and> meals (step (PressAdd now rand handle now2) s) = meals s
         \<and> scheduled (step (PressAdd now rand handle now2) s) = scheduled s
         \<and> storage (step (PressAdd now rand handle now2) s) = storage s
         \<and> storageWrites (step (PressAdd now rand handle now2) s) = storageWrites s)"
proof -
  note r = addMeal_rejected [OF assms, of now rand handle now2]
  have "reachable s \<and> mounted s \<longrightarrow>
      step (PressAdd now rand handle now2) s = addMeal now rand handle now2 s"
  proof
    assume a: "reachable s \<and> mounted s"
    then have "\<not> mealsChanged s" "\<not> activeAlarmChanged s"
      by (auto dest: reachable_settled)
    then have "runEffects (addMeal now rand handle now2 s) = addMeal now rand handle now2 s"
      by (intro runEffects_settled) (simp_all add: r)
    then show "step (PressAdd now rand handle now2) s = addMeal now rand handle now2 s"
      by (simp add: step_def)
  qed
  moreover have "meals (addMeal now rand handle now2 s) = meals s"
    "scheduled (addMeal now rand handle now2 s) = scheduled s"
    "storage (addMeal now rand handle now2 s) = storage s"
    "storageWrites (addMeal now rand handle now2 s) = storageWrites s"
    by (simp_all add: r)
  ultimately show ?thesis using r by simp
qed

text \<open>An instance: the add button pressed with the name field empty.\<close>

theorem addMeal_invalid_input_changes_nothing_witness:
  "trim (mealNameInput started) = [] \<and> reachable started \<and> mounted started
   \<and> meals (step (PressAdd 17 ''ab12cd'' ''n-1'' 18) started) = meals started
   \<and> scheduled (step (PressAdd 17 ''ab12cd'' ''n-1'' 18) started) = scheduled started
   \<and> storageWrites (step (PressAdd 17 ''ab12cd'' ''n-1'' 18) started) = storageWrites started
   \<and> alerts (addMeal 17 ''ab12cd'' ''n-1'' 18 started)
       = alerts started @ [(''Meal required'', ''Enter a meal name like Tuna casserole.'')]"
proof -
  have m: "mounted started" by code_simp
  have t: "trim (mealNameInput started) = []" by code_simp
  then have d: "trim (mealNameInput started) = [] \<or> parseTime (dailyTime started) = None" by simp
  from addMeal_invalid_input_changes_nothing [OF d, of 17 "''ab12cd''" "''n-1''" 18] m t
    reachable_started
  show ?thesis by simp
qed

text \<open>
  Claim C6. When a session is active and the sentence matches, \<^verbatim>\<open>Cancel This Alarm\<close> is to
  end the session and stop the vibration. The source does not do so for a session whose meal
  is not in the list: \<open>cancelMealAlarm\<close> returns at \<^verbatim>\<open>if (!target) { return; }\<close>, before
  it reaches \<^verbatim>\<open>setActiveAlarm(null)\<close>. In the reachable state \<open>absent_meal_alarm\<close> the
  session is active and the button can be pressed; after pressing it the session is still
  active, its timer still runs and the vibration is still on, while \<^verbatim>\<open>Dismiss For Now\<close>
  pressed in the same state ends the session.
\<close>

theorem cancel_this_alarm_absent_meal_stays_active:
  "reachable absent_meal_alarm
   \<and> activeAlarm absent_meal_alarm = Some \<lparr>mealId = ''m1'', mealName = ''tuna''\<rparr>
   \<and> enabled PressCancelThisAlarm absent_meal_alarm
   \<and> activeAlarm (step PressCancelThisAlarm absent_meal_alarm)
       = Some \<lparr>mealId = ''m1'', mealName = ''tuna''\<rparr>
   \<and> intervals (step PressCancelThisAlarm absent_meal_alarm) = [1]
   \<and> vibrating (step PressCancelThisAlarm absent_meal_alarm)
   \<and> enabled PressDismiss absent_meal_alarm
   \<and> activeAlarm (step PressDismiss absent_meal_alarm) = None
   \<and> intervals (step PressDismiss absent_meal_alarm) = []"
proof -
  have "all_enabled
      [NotificationReceived \<lparr>data_mealId = Some ''m1'', data_mealName = Some ''tuna''\<rparr>,
       ChangeAlarmSentence ''my name is sarah and i will use the tuna today''] started"
    by code_simp
  then have "reachable absent_meal_alarm"
    unfolding absent_meal_alarm_def by (rule reachable_run [OF reachable_started])
  moreover have
    "activeAlarm absent_meal_alarm = Some \<lparr>mealId = ''m1'', mealName = ''tuna''\<rparr>"
    "enabled PressCancelThisAlarm absent_meal_alarm"
    "activeAlarm (step PressCancelThisAlarm absent_meal_alarm)
       = Some \<lparr>mealId = ''m1'', mealName = ''tuna''\<rparr>"
    "intervals (step PressCancelThisAlarm absent_meal_alarm) = [1]"
    "vibrating (step PressCancelThisAlarm absent_meal_alarm)"
    "enabled PressDismiss absent_meal_alarm"
    "activeAlarm (step PressDismiss absent_meal_alarm) = None"
    "intervals (step PressDismiss absent_meal_alarm) = []"
    by code_simp+
  ultimately show ?thesis by blast
qed

text \<open>
  Where the list does hold a meal with the session's id, the button does what is asked of
  it: it runs \<open>cancelMealAlarm\<close> for that id, the session ends, no timer runs and no
  vibration is on afterwards, every meal with that id leaves the list, the trigger of the
  first such meal is cancelled, and the new list is stored.
\<close>

lemma cancel_this_alarm_listed_meal:
  assumes "reachable s" "enabled PressCancelThisAlarm s" "activeAlarm s = Some a"
  shows "handler PressCancelThisAlarm s = cancelMealAlarm (mealId a) s
    \<and> (List.find (\<lambda>meal. entry_id meal = mealId a) (meals s) = Some target \<longrightarrow>
          activeAlarm (step PressCancelThisAlarm s) = None
          \<and> intervals (step PressCancelThisAlarm s) = []
          \<and> \<not> vibrating (step PressCancelThisAlarm s)
          \<and> meals (step PressCancelThisAlarm s)
              = filter (\<lambda>meal. entry_id meal \<noteq> mealId a) (meals s)
          \<and> scheduled (step PressCancelThisAlarm s)
              = filter (\<lambda>(k, r). k \<noteq> notificationId target) (scheduled s)
          \<and> storage (step PressCancelThisAlarm s)
              = Some (filter (\<lambda>meal. entry_id meal \<noteq> mealId a) (meals s)))"
proof -
  have h: "handler PressCancelThisAlarm s = cancelMealAlarm (mealId a) s"
    using assms(3) by simp
  have st: "step PressCancelThisAlarm s = runEffects (cancelMealAlarm (mealId a) s)"
    using assms(3) by (simp add: step_def)
  have found: "List.find (\<lambda>meal. entry_id meal = mealId a) (meals s) = Some target \<longrightarrow>
          activeAlarm (step PressCancelThisAlarm s) = None
          \<and> intervals (step PressCancelThisAlarm s) = []
          \<and> \<not> vibrating (step PressCancelThisAlarm s)
          \<and> meals (step PressCancelThisAlarm s)
              = filter (\<lambda>meal. entry_id meal \<noteq> mealId a) (meals s)
          \<and> scheduled (step PressCancelThisAlarm s)
              = filter (\<lambda>(k, r). k \<noteq> notificationId target) (scheduled s)
          \<and> storage (step PressCancelThisAlarm s)
              = Some (filter (\<lambda>meal. entry_id meal \<noteq> mealId a) (meals s))"
  proof
    assume f: "List.find (\<lambda>meal. entry_id meal = mealId a) (meals s) = Some target"
    note c = cancelMealAlarm_session_meal [OF f assms(3)]
    have fields: "activeAlarm (cancelMealAlarm (mealId a) s) = None"
      "meals (cancelMealAlarm (mealId a) s) = filter (\<lambda>meal. entry_id meal \<noteq> mealId a) (meals s)"
      "scheduled (cancelMealAlarm (mealId a) s)
         = filter (\<lambda>(k, r). k \<noteq> notificationId target) (scheduled s)"
      "mealsChanged (cancelMealAlarm (mealId a) s)"
      by (simp_all add: c setter_defs)
    have idle: "activeAlarm (step PressCancelThisAlarm s) = None"
      by (simp add: st runEffects_keeps fields)
    have r': "reachable (step PressCancelThisAlarm s)"
      using assms(1,2) by (rule reachable.next_step)
    from idle_state(1,2) [OF r' idle] idle
    show "activeAlarm (step PressCancelThisAlarm s) = None
          \<and> intervals (step PressCancelThisAlarm s) = []
          \<and> \<not> vibrating (step PressCancelThisAlarm s)
          \<and> meals (step PressCancelThisAlarm s)
              = filter (\<lambda>meal. entry_id meal \<noteq> mealId a) (meals s)
          \<and> scheduled (step PressCancelThisAlarm s)
              = filter (\<lambda>(k, r). k \<noteq> notificationId target) (scheduled s)
          \<and> storage (step PressCancelThisAlarm s)
              = Some (filter (\<lambda>meal. entry_id meal \<noteq> mealId a) (meals s))"
      by (simp add: st runEffects_keeps runEffects_storage fields)
  qed
  from h found show ?thesis by blast
qed

text \<open>An instance: a meal is added, its alarm rings, the sentence is typed.\<close>

lemma cancel_this_alarm_listed_meal_instance:
  "reachable listed_meal_alarm \<and> enabled PressCancelThisAlarm listed_meal_alarm
   \<and> activeAlarm listed_meal_alarm = Some \<lparr>mealId = ''17-ab'', mealName = ''Tuna''\<rparr>
   \<and> List.find (\<lambda>meal. entry_id meal = ''17-ab'') (meals listed_meal_alarm)
       = Some \<lparr>entry_id = ''17-ab'', name = ''Tuna'', hour = 18, minute = 0,
               notificationId = ''n-1'', createdAt = 18\<rparr>
   \<and> activeAlarm (step PressCancelThisAlarm listed_meal_alarm) = None
   \<and> intervals (step PressCancelThisAlarm listed_meal_alarm) = []
   \<and> meals (step PressCancelThisAlarm listed_meal_alarm) = []
   \<and> scheduled (step PressCancelThisAlarm listed_meal_alarm) = []"
proof -
  have "all_enabled
      [PressTool, ChangeMealName ''Tuna'', PressAdd 17 ''ab'' ''n-1'' 18,
       NotificationReceived \<lparr>data_mealId = Some ''17-ab'', data_mealName = Some ''Tuna''\<rparr>,
       ChangeAlarmSentence ''my name is sarah and i will use the tuna today''] started"
    by code_simp
  then have r: "reachable listed_meal_alarm"
    unfolding listed_meal_alarm_def by (rule reachable_run [OF reachable_started])
  have e: "enabled PressCancelThisAlarm listed_meal_alarm" by code_simp
  have a: "activeAlarm listed_meal_alarm = Some \<lparr>mealId = ''17-ab'', mealName = ''Tuna''\<rparr>"
    by code_simp
  have f: "List.find (\<lambda>meal. entry_id meal = mealId \<lparr>mealId = ''17-ab'', mealName = ''Tuna''\<rparr>)
        (meals listed_meal_alarm)
       = Some \<lparr>entry_id = ''17-ab'', name = ''Tuna'', hour = 18, minute = 0,
               notificationId = ''n-1'', createdAt = 18\<rparr>"
    by code_simp
  have v: "meals listed_meal_alarm
      = [\<lparr>entry_id = ''17-ab'', name = ''Tuna'', hour = 18, minute = 0,
          notificationId = ''n-1'', createdAt = 18\<rparr>]"
    "map fst (scheduled listed_meal_alarm) = [''n-1'']"
    by code_simp+
  from v(2) have sch: "filter (\<lambda>(k, r). k \<noteq> ''n-1'') (scheduled listed_meal_alarm) = []"
    by (cases "scheduled listed_meal_alarm") auto
  from cancel_this_alarm_listed_meal [OF r e a,
      of "\<lparr>entry_id = ''17-ab'', name = ''Tuna'', hour = 18, minute = 0,
           notificationId = ''n-1'', createdAt = 18\<rparr>"] f
  have "activeAlarm (step PressCancelThisAlarm listed_meal_alarm) = None"
    "intervals (step PressCancelThisAlarm listed_meal_alarm) = []"
    "meals (step PressCancelThisAlarm listed_meal_alarm)
       = filter (\<lambda>meal. entry_id meal \<noteq> ''17-ab'') (meals listed_meal_alarm)"
    "scheduled (step PressCancelThisAlarm listed_meal_alarm)
       = filter (\<lambda>(k, r). k \<noteq> ''n-1'') (scheduled listed_meal_alarm)"
    by simp_all
  with r e a f v(1) sch show ?thesis by simp
qed

text \<open>
  Claim C7. The listener for delivered notifications and the listener for tapped
  notifications are the same function of the data and the state, and so are the steps
  they cause. For data with a non-empty meal id \<open>i\<close> and a non-empty meal name \<open>n\<close> both
  leave the session active for \<open>i\<close> and \<open>n\<close>, and the tool screen shown.
\<close>

theorem notification_handlers_agree:
  "notificationReceivedListener dat s = notificationResponseListener dat s
   \<and> step (NotificationReceived dat) s = step (NotificationResponse dat) s
   \<and> (i \<noteq> [] \<and> n \<noteq> [] \<longrightarrow>
        activeAlarm (step (NotificationReceived \<lparr>data_mealId = Some i, data_mealName = Some n\<rparr>) s)
          = Some \<lparr>mealId = i, mealName = n\<rparr>
        \<and> screen (step (NotificationReceived \<lparr>data_mealId = Some i, data_mealName = Some n\<rparr>) s)
          = foodWastePreventer
        \<and> activeAlarm (step (NotificationResponse \<lparr>data_mealId = Some i, data_mealName = Some n\<rparr>) s)
          = Some \<lparr>mealId = i, mealName = n\<rparr>
        \<and> screen (step (NotificationResponse \<lparr>data_mealId = Some i, data_mealName = Some n\<rparr>) s)
          = foodWastePreventer)"
proof -
  have eq: "\<And>d. notificationReceivedListener d s = notificationResponseListener d s"
    by (simp add: notificationReceivedListener_def notificationResponseListener_def)
  have st: "\<And>d. step (NotificationReceived d) s = step (NotificationResponse d) s"
    by (simp add: step_def eq)
  have res: "i \<noteq> [] \<and> n \<noteq> [] \<longrightarrow>
        activeAlarm (step (NotificationReceived \<lparr>data_mealId = Some i, data_mealName = Some n\<rparr>) s)
          = Some \<lparr>mealId = i, mealName = n\<rparr>
        \<and> screen (step (NotificationReceived \<lparr>data_mealId = Some i, data_mealName = Some n\<rparr>) s)
          = foodWastePreventer"
    by (simp add: step_def runEffects_keeps notificationReceivedListener_def truthy_Some
        setScreen_def setActiveAlarm_def)
  from eq st res show ?thesis by simp
qed

text \<open>An instance: the meal \<^verbatim>\<open>tuna\<close> with the id \<^verbatim>\<open>m1\<close>.\<close>

theorem notification_handlers_agree_witness:
  "''m1'' \<noteq> [] \<and> ''tuna'' \<noteq> []
   \<and> activeAlarm (step (NotificationReceived \<lparr>data_mealId = Some ''m1'', data_mealName = Some ''tuna''\<rparr>) started)
      = Some \<lparr>mealId = ''m1'', mealName = ''tuna''\<rparr>
   \<and> screen (step (NotificationResponse \<lparr>data_mealId = Some ''m1'', data_mealName = Some ''tuna''\<rparr>) started)
      = foodWastePreventer"
  using notification_handlers_agree [of _ started "''m1''" "''tuna''"] by simp




text \<open>
  Claim C9 says that every save follows a change of the list. The effect on \<^verbatim>\<open>[meals]\<close>
  also runs when the component mounts, before \<^verbatim>\<open>setupNotifications\<close> has read the storage:
  whatever list \<open>ms\<close> was stored, mounting writes the empty list over it, and the load that
  follows reads the empty list.
\<close>

theorem mount_overwrites_stored_meals:
  "storage (mount (initialApp (Some ms) sched)) = Some []
   \<and> storageWrites (mount (initialApp (Some ms) sched)) = [[]]
   \<and> meals (step (SetupDone status requested lastResponse) (mount (initialApp (Some ms) sched))) = []
   \<and> storage (step (SetupDone status requested lastResponse) (mount (initialApp (Some ms) sched)))
       = Some []"
proof -
  let ?s = "mount (initialApp (Some ms) sched)"
  have m: "storage ?s = Some []" "storageWrites ?s = [[]]"
    by (simp_all add: mount_def initialApp_def effect_defs setter_defs)
  have l: "\<And>x. meals (lastResponseCheck lastResponse x) = meals x"
    by (simp add: lastResponseCheck_def setter_defs split: option.splits)
  have "meals (setupNotifications status requested lastResponse ?s) = []"
    "mealsChanged (setupNotifications status requested lastResponse ?s)"
    by (simp_all add: setupNotifications_def Let_def m lastResponseCheck_def setter_defs
        split: option.splits)
  then have "meals (step (SetupDone status requested lastResponse) ?s) = []"
    "storage (step (SetupDone status requested lastResponse) ?s) = Some []"
    by (simp_all add: step_def runEffects_keeps runEffects_storage)
  with m show ?thesis by simp
qed

text \<open>
  Claim C10. For data without a meal id or without a meal name, each of the two listeners
  and the cold-start check return the state unchanged; \<open>setupNotifications\<close> with such a
  last response does what it does with none; and in a reachable state the whole step of
  either notification event, effects included, changes nothing.
\<close>

theorem missing_payload_ignored:
  assumes "data_mealId dat = None \<or> data_mealName dat = None"
  shows "notificationReceivedListener dat s = s
    \<and> notificationResponseListener dat s = s
    \<and> lastResponseCheck (Some dat) s = s
    \<and> setupNotifications status requested (Some dat) s = setupNotifications status requested None s
    \<and> (reachable s \<and> mounted s \<longrightarrow>
         step (NotificationReceived dat) s = s \<and> step (NotificationResponse dat) s = s)"
proof -
  from assms have f: "\<not> truthy (data_mealId dat) \<or> \<not> truthy (data_mealName dat)"
    by (auto simp: truthy_def)
  then have l: "notificationReceivedListener dat s = s" "notificationResponseListener dat s = s"
    by (auto simp: notificationReceivedListener_def notificationResponseListener_def)
  from f have c: "\<And>x. lastResponseCheck (Some dat) x = lastResponseCheck None x"
    by (auto simp: lastResponseCheck_def)
  have c0: "lastResponseCheck (Some dat) s = s"
    by (simp add: c) (simp add: lastResponseCheck_def)
  have su: "setupNotifications status requested (Some dat) s
      = setupNotifications status requested None s"
    by (simp add: setupNotifications_def c)
  have "reachable s \<and> mounted s \<longrightarrow>
         step (NotificationReceived dat) s = s \<and> step (NotificationResponse dat) s = s"
    using reachable_settled [of s] by (simp add: step_def l runEffects_settled)
  with l c0 su show ?thesis by simp
qed

text \<open>An instance: data with a meal name and no meal id.\<close>

theorem missing_payload_ignored_witness:
  "data_mealId \<lparr>data_mealId = None, data_mealName = Some ''tuna''\<rparr> = None
   \<and> reachable started \<and> mounted started
   \<and> step (NotificationReceived \<lparr>data_mealId = None, data_mealName = Some ''tuna''\<rparr>) started = started
   \<and> lastResponseCheck (Some \<lparr>data_mealId = None, data_mealName = Some ''tuna''\<rparr>) started = started"
proof -
  have m: "mounted started" by code_simp
  have d: "data_mealId \<lparr>data_mealId = None, data_mealName = Some ''tuna''\<rparr> = None
      \<or> data_mealName \<lparr>data_mealId = None, data_mealName = Some ''tuna''\<rparr> = None"
    by simp
  from missing_payload_ignored [OF d, of started] m reachable_started show ?thesis by simp
qed

end
